theory Spec2Isabelle
  imports Complex_Main
begin

section \<open>Python strings and number formatting\<close>

text \<open>
  The generator \<^verbatim>\<open>HTMLImageGenerator\<close> of
  \<^verbatim>\<open>utils/html_image_generator.py\<close> turns course and ranking records into the
  variables of three HTML templates. A Python \<^verbatim>\<open>str\<close> is modelled by its UTF-8
  encoding, a \<open>string\<close>; the source compares no lengths and slices no strings, it only
  concatenates, and UTF-8 encoding is a homomorphism for concatenation. The Chinese
  literals of the source are written as the bytes of their UTF-8 encoding, with the
  Unicode code points beside them.
\<close>

text \<open>Decimal digits of a natural number, as \<^verbatim>\<open>str(n)\<close> prints them.\<close>

definition digit_char :: "nat \<Rightarrow> char" where
  "digit_char d = ''0123456789'' ! d"

function str_nat :: "nat \<Rightarrow> string" where
  "str_nat n = (if n < 10 then [digit_char n] else str_nat (n div 10) @ [digit_char (n mod 10)])"
  by pat_completeness auto
termination
  by (relation "measure (\<lambda>n. n)") auto

declare str_nat.simps [simp del]

text \<open>\<^verbatim>\<open>str(i)\<close> and \<^verbatim>\<open>f"{i}"\<close> for a Python \<^verbatim>\<open>int\<close>.\<close>

definition str_int :: "int \<Rightarrow> string" where
  "str_int i = (if i < 0 then ''-'' @ str_nat (nat (- i)) else str_nat (nat i))"

text \<open>\<^verbatim>\<open>"%0wd" % n\<close>: decimal, padded with zeros on the left to width \<open>w\<close>.\<close>

definition zero_pad :: "nat \<Rightarrow> nat \<Rightarrow> string" where
  "zero_pad w n = replicate (w - length (str_nat n)) (CHR ''0'') @ str_nat n"

section \<open>Dates, times and durations\<close>

text \<open>
  \<^verbatim>\<open>datetime.date\<close> and its subclass \<^verbatim>\<open>datetime.datetime\<close>. The time zone
  of a \<^verbatim>\<open>datetime\<close> is left out: \<^verbatim>\<open>strftime\<close> with the directives used here
  and \<^verbatim>\<open>weekday()\<close> read the local fields only.
\<close>

record date =
  year :: nat
  month :: nat
  day :: nat

record datetime = date +
  hour :: nat
  minute :: nat
  second :: nat
  microsecond :: nat

text \<open>
  \<^verbatim>\<open>datetime.timedelta\<close> in its normal form: any number of days,
  \<open>0 \<le> seconds < 86400\<close>, \<open>0 \<le> microseconds < 1000000\<close>.
\<close>

record timedelta =
  days :: int
  seconds :: int
  microseconds :: int

text \<open>The constructor call \<^verbatim>\<open>timedelta(seconds=s)\<close> for an integer \<open>s\<close>.\<close>

definition timedelta_of_seconds :: "int \<Rightarrow> timedelta" where
  "timedelta_of_seconds s = \<lparr>days = s div 86400, seconds = s mod 86400, microseconds = 0\<rparr>"

text \<open>
  A Python \<^verbatim>\<open>float\<close> is an IEEE 754 binary64 number; a finite one is modelled by
  its exact value, a rational. \<open>round_double\<close> rounds a rational to the nearest such
  number, ties to the even significand: with \<open>2\<^sup>e \<le> |x| < 2\<^sup>e\<^sup>+\<^sup>1\<close> the neighbours of
  \<open>x\<close> are the multiples of \<open>2\<^sup>e\<^sup>-\<^sup>5\<^sup>2\<close>. The exponent is not bounded: every value met
  here lies between \<open>10\<^sup>-\<^sup>6\<close> and \<open>10\<^sup>1\<^sup>4\<close> in magnitude or is zero, far from overflow
  and from the subnormal numbers. The sign of a zero is not kept; \<^verbatim>\<open>int(x)\<close> does
  not see it.
\<close>

function ilog2 :: "nat \<Rightarrow> nat" where
  "ilog2 n = (if n < 2 then 0 else Suc (ilog2 (n div 2)))"
  by pat_completeness auto
termination
  by (relation "measure (\<lambda>n. n)") auto

declare ilog2.simps [simp del]

definition pow2 :: "int \<Rightarrow> rat" where
  "pow2 k = (if 0 \<le> k then 2 ^ nat k else 1 / 2 ^ nat (- k))"

definition binary_exponent :: "rat \<Rightarrow> int" where
  "binary_exponent x =
     (if 1 \<le> x then int (ilog2 (nat \<lfloor>x\<rfloor>))
      else - int (Suc (ilog2 (nat \<lceil>1 / x\<rceil> - 1))))"

definition round_half_even :: "rat \<Rightarrow> int" where
  "round_half_even q =
     (let f = \<lfloor>q\<rfloor>; d = q - of_int f
      in if d < 1 / 2 then f else if 1 / 2 < d then f + 1 else if even f then f else f + 1)"

definition round_double :: "rat \<Rightarrow> rat" where
  "round_double x =
     (if x = 0 then 0
      else (let u = pow2 (binary_exponent \<bar>x\<bar> - 52)
            in of_int (round_half_even (x / u)) * u))"

text \<open>
  \<^verbatim>\<open>timedelta.total_seconds()\<close>: the duration in microseconds, an integer, divided
  by \<open>10\<^sup>6\<close> with Python's true division of integers, which is correctly rounded.
\<close>

definition total_seconds :: "timedelta \<Rightarrow> rat" where
  "total_seconds td =
     round_double
       (of_int ((days td * 86400 + seconds td) * 1000000 + microseconds td) / 1000000)"

text \<open>
  \<^verbatim>\<open>int(x)\<close> truncates toward zero. The C function \<^verbatim>\<open>fmod\<close> is exact: its
  result has the sign of \<open>x\<close> and a magnitude below that of \<open>y\<close>.
\<close>

definition py_int :: "rat \<Rightarrow> int" where
  "py_int x = (if 0 \<le> x then \<lfloor>x\<rfloor> else \<lceil>x\<rceil>)"

definition fmod :: "rat \<Rightarrow> rat \<Rightarrow> rat" where
  "fmod x y = x - y * of_int (py_int (x / y))"

text \<open>
  The operators \<^verbatim>\<open>//\<close> and \<^verbatim>\<open>%\<close> on floats, step by step as the interpreter
  computes them (\<^verbatim>\<open>_float_div_mod\<close> and \<^verbatim>\<open>float_rem\<close>): every subtraction,
  addition and division is a float operation and rounds. The divisors of the source
  are the literals 3600 and 60, so the division by zero that Python raises does not
  arise.
\<close>

definition floordiv :: "rat \<Rightarrow> rat \<Rightarrow> rat" where
  "floordiv vx wx =
     (let md = fmod vx wx;
          dv = round_double (round_double (vx - md) / wx);
          dv' = (if md \<noteq> 0 \<and> ((wx < 0) \<noteq> (md < 0)) then round_double (dv - 1) else dv)
      in if dv' \<noteq> 0 then
           (let fl = of_int \<lfloor>dv'\<rfloor>
            in if 1 / 2 < round_double (dv' - fl) then round_double (fl + 1) else fl)
         else 0)"

definition pymod :: "rat \<Rightarrow> rat \<Rightarrow> rat" where
  "pymod vx wx =
     (let md = fmod vx wx
      in if md \<noteq> 0 then (if (wx < 0) \<noteq> (md < 0) then round_double (md + wx) else md)
         else 0)"

text \<open>
  \<^verbatim>\<open>date.weekday()\<close> as the standard library computes it: the proleptic Gregorian
  ordinal of the day (1 for 0001-01-01, a Monday), shifted so that Monday is 0.
\<close>

definition is_leap :: "nat \<Rightarrow> bool" where
  "is_leap y = (y mod 4 = 0 \<and> (y mod 100 \<noteq> 0 \<or> y mod 400 = 0))"

definition days_before_year :: "nat \<Rightarrow> nat" where
  "days_before_year y = (y - 1) * 365 + (y - 1) div 4 - (y - 1) div 100 + (y - 1) div 400"

definition DAYS_BEFORE_MONTH :: "nat list" where
  "DAYS_BEFORE_MONTH = [0, 0, 31, 59, 90, 120, 151, 181, 212, 243, 273, 304, 334]"

definition days_before_month :: "nat \<Rightarrow> nat \<Rightarrow> nat" where
  "days_before_month y m = DAYS_BEFORE_MONTH ! m + (if 2 < m \<and> is_leap y then 1 else 0)"

definition toordinal :: "'a date_scheme \<Rightarrow> nat" where
  "toordinal d = days_before_year (year d) + days_before_month (year d) (month d) + day d"

definition weekday :: "'a date_scheme \<Rightarrow> nat" where
  "weekday d = (toordinal d + 6) mod 7"

text \<open>
  \<^verbatim>\<open>strftime\<close> for the directives the source uses: \<^verbatim>\<open>%Y %m %d %H %M %S\<close>
  (zero-padded decimals); every other character is copied. A \<^verbatim>\<open>date\<close> formats
  its time fields as zero. The year is printed with four digits, as the library
  documents it; for a year below 1000 the C library of the platform decides, and glibc
  prints it without the zeros.
\<close>

definition strftime_directive :: "datetime \<Rightarrow> char \<Rightarrow> string" where
  "strftime_directive d c =
     (if c = CHR ''Y'' then zero_pad 4 (year d)
      else if c = CHR ''m'' then zero_pad 2 (month d)
      else if c = CHR ''d'' then zero_pad 2 (day d)
      else if c = CHR ''H'' then zero_pad 2 (hour d)
      else if c = CHR ''M'' then zero_pad 2 (minute d)
      else if c = CHR ''S'' then zero_pad 2 (second d)
      else [CHR ''%'', c])"

fun strftime :: "datetime \<Rightarrow> string \<Rightarrow> string" where
  "strftime d (c # c' # fmt) =
     (if c = CHR ''%'' then strftime_directive d c' @ strftime d fmt
      else c # strftime d (c' # fmt))"
| "strftime d fmt = fmt"

definition date_strftime :: "date \<Rightarrow> string \<Rightarrow> string" where
  "date_strftime d fmt =
     strftime \<lparr>year = year d, month = month d, day = day d,
               hour = 0, minute = 0, second = 0, microsecond = 0\<rparr> fmt"

section \<open>Values, dictionaries and exceptions\<close>

text \<open>
  The entries are Python dictionaries (\<^verbatim>\<open>List[Dict]\<close>); a key may be absent, or
  present with any value, \<^verbatim>\<open>None\<close> included. The values are drawn from the types
  the plugin stores in them.
\<close>

datatype pyval =
    PNone
  | PInt int
  | PStr string
  | PDatetime datetime
  | PTimedelta timedelta

type_synonym pydict = "string \<rightharpoonup> pyval"

type_synonym bytes = "char list"

text \<open>
  The exceptions the code can meet: a missing key of \<^verbatim>\<open>data[k]\<close>, a method that
  the value does not have, an index outside a list, and an exception raised by an
  external collaborator (the renderer, the temporary file), known by its class name and
  its message. \<open>ExternalError\<close> is such an exception below \<^verbatim>\<open>Exception\<close>;
  \<open>BaseError\<close> is one below \<^verbatim>\<open>BaseException\<close> only, as the
  \<^verbatim>\<open>asyncio.CancelledError\<close> that an \<^verbatim>\<open>await\<close> can raise.
\<close>

datatype exn =
    KeyError string
  | AttributeError string string
  | IndexError
  | ExternalError string string
  | BaseError string string

text \<open>\<^verbatim>\<open>str(e)\<close>, as the f-string of the log line prints the exception.\<close>

fun exn_str :: "exn \<Rightarrow> string" where
  "exn_str (KeyError k) = [CHR 0x27] @ k @ [CHR 0x27]"
| "exn_str (AttributeError t a) =
     [CHR 0x27] @ t @ [CHR 0x27] @ '' object has no attribute '' @ [CHR 0x27] @ a @ [CHR 0x27]"
| "exn_str IndexError = ''list index out of range''"
| "exn_str (ExternalError c m) = m"
| "exn_str (BaseError c m) = m"

text \<open>The class of an exception, and whether \<^verbatim>\<open>except Exception\<close> catches it.\<close>

fun exn_class :: "exn \<Rightarrow> string" where
  "exn_class (KeyError k) = ''KeyError''"
| "exn_class (AttributeError t a) = ''AttributeError''"
| "exn_class IndexError = ''IndexError''"
| "exn_class (ExternalError c m) = c"
| "exn_class (BaseError c m) = c"

fun is_Exception :: "exn \<Rightarrow> bool" where
  "is_Exception (BaseError c m) = False"
| "is_Exception e = True"

text \<open>
  The error kind \<^verbatim>\<open>RenderError\<close> that the specification names. The source
  neither defines nor raises an exception of this class; an exception is one only when
  a collaborator raises it under that name.
\<close>

definition is_RenderError :: "exn \<Rightarrow> bool" where
  "is_RenderError e = (exn_class e = ''RenderError'')"

fun type_name :: "pyval \<Rightarrow> string" where
  "type_name PNone = ''NoneType''"
| "type_name (PInt i) = ''int''"
| "type_name (PStr s) = ''str''"
| "type_name (PDatetime d) = ''datetime.datetime''"
| "type_name (PTimedelta td) = ''datetime.timedelta''"

text \<open>Truth value of an object, as \<^verbatim>\<open>x and y\<close> and \<^verbatim>\<open>if x\<close> test it.\<close>

fun truthy :: "pyval \<Rightarrow> bool" where
  "truthy PNone = False"
| "truthy (PInt i) = (i \<noteq> 0)"
| "truthy (PStr s) = (s \<noteq> [])"
| "truthy (PDatetime d) = True"
| "truthy (PTimedelta td) = (days td \<noteq> 0 \<or> seconds td \<noteq> 0 \<or> microseconds td \<noteq> 0)"

text \<open>\<^verbatim>\<open>str(d)\<close> of a naive \<^verbatim>\<open>datetime\<close> and of a \<^verbatim>\<open>timedelta\<close>.\<close>

definition str_datetime :: "datetime \<Rightarrow> string" where
  "str_datetime d =
     zero_pad 4 (year d) @ ''-'' @ zero_pad 2 (month d) @ ''-'' @ zero_pad 2 (day d) @ '' '' @
     zero_pad 2 (hour d) @ '':'' @ zero_pad 2 (minute d) @ '':'' @ zero_pad 2 (second d) @
     (if microsecond d \<noteq> 0 then ''.'' @ zero_pad 6 (microsecond d) else [])"

definition str_timedelta :: "timedelta \<Rightarrow> string" where
  "str_timedelta td =
     (let mm = seconds td div 60; ss = seconds td mod 60;
          hh = mm div 60; mm' = mm mod 60;
          s = str_int hh @ '':'' @ zero_pad 2 (nat mm') @ '':'' @ zero_pad 2 (nat ss);
          s' = (if days td \<noteq> 0
                then str_int (days td) @ '' day'' @ (if \<bar>days td\<bar> \<noteq> 1 then ''s'' else []) @
                     '', '' @ s
                else s)
      in if microseconds td \<noteq> 0 then s' @ ''.'' @ zero_pad 6 (nat (microseconds td)) else s')"

text \<open>The replacement field \<^verbatim>\<open>{v}\<close> of an f-string.\<close>

fun py_format :: "pyval \<Rightarrow> string" where
  "py_format PNone = ''None''"
| "py_format (PInt i) = str_int i"
| "py_format (PStr s) = s"
| "py_format (PDatetime d) = str_datetime d"
| "py_format (PTimedelta td) = str_timedelta td"

text \<open>\<^verbatim>\<open>d[k]\<close>, \<^verbatim>\<open>d.get(k)\<close> and \<^verbatim>\<open>d.get(k, default)\<close>.\<close>

definition getitem :: "pydict \<Rightarrow> string \<Rightarrow> exn + pyval" where
  "getitem d k = (case d k of None \<Rightarrow> Inl (KeyError k) | Some v \<Rightarrow> Inr v)"

definition dict_get :: "pydict \<Rightarrow> string \<Rightarrow> pyval" where
  "dict_get d k = (case d k of None \<Rightarrow> PNone | Some v \<Rightarrow> v)"

definition dict_get_default :: "pydict \<Rightarrow> string \<Rightarrow> pyval \<Rightarrow> pyval" where
  "dict_get_default d k dflt = (case d k of None \<Rightarrow> dflt | Some v \<Rightarrow> v)"

text \<open>\<^verbatim>\<open>xs[i]\<close> for a non-negative index.\<close>

definition list_index :: "'a list \<Rightarrow> nat \<Rightarrow> exn + 'a" where
  "list_index xs i = (if i < length xs then Inr (xs ! i) else Inl IndexError)"

text \<open>The method calls \<^verbatim>\<open>v.strftime(fmt)\<close> and \<^verbatim>\<open>v.total_seconds()\<close> on a value.\<close>

fun call_strftime :: "pyval \<Rightarrow> string \<Rightarrow> exn + string" where
  "call_strftime (PDatetime d) fmt = Inr (strftime d fmt)"
| "call_strftime v fmt = Inl (AttributeError (type_name v) ''strftime'')"

fun call_total_seconds :: "pyval \<Rightarrow> exn + rat" where
  "call_total_seconds (PTimedelta td) = Inr (total_seconds td)"
| "call_total_seconds v = Inl (AttributeError (type_name v) ''total_seconds'')"

section \<open>String literals of the source\<close>

definition TODAY :: string where \<comment> \<open>U+4ECA U+65E5\<close>
  "TODAY =
    [CHR 0xE4, CHR 0xBB, CHR 0x8A, CHR 0xE6, CHR 0x97, CHR 0xA5]"

definition ZHOU_YI :: string where \<comment> \<open>U+5468 U+4E00\<close>
  "ZHOU_YI =
    [CHR 0xE5, CHR 0x91, CHR 0xA8, CHR 0xE4, CHR 0xB8, CHR 0x80]"

definition ZHOU_ER :: string where \<comment> \<open>U+5468 U+4E8C\<close>
  "ZHOU_ER =
    [CHR 0xE5, CHR 0x91, CHR 0xA8, CHR 0xE4, CHR 0xBA, CHR 0x8C]"

definition ZHOU_SAN :: string where \<comment> \<open>U+5468 U+4E09\<close>
  "ZHOU_SAN =
    [CHR 0xE5, CHR 0x91, CHR 0xA8, CHR 0xE4, CHR 0xB8, CHR 0x89]"

definition ZHOU_SI :: string where \<comment> \<open>U+5468 U+56DB\<close>
  "ZHOU_SI =
    [CHR 0xE5, CHR 0x91, CHR 0xA8, CHR 0xE5, CHR 0x9B, CHR 0x9B]"

definition ZHOU_WU :: string where \<comment> \<open>U+5468 U+4E94\<close>
  "ZHOU_WU =
    [CHR 0xE5, CHR 0x91, CHR 0xA8, CHR 0xE4, CHR 0xBA, CHR 0x94]"

definition ZHOU_LIU :: string where \<comment> \<open>U+5468 U+516D\<close>
  "ZHOU_LIU =
    [CHR 0xE5, CHR 0x91, CHR 0xA8, CHR 0xE5, CHR 0x85, CHR 0xAD]"

definition ZHOU_RI :: string where \<comment> \<open>U+5468 U+65E5\<close>
  "ZHOU_RI =
    [CHR 0xE5, CHR 0x91, CHR 0xA8, CHR 0xE6, CHR 0x97, CHR 0xA5]"

definition DE :: string where \<comment> \<open>U+7684\<close>
  "DE =
    [CHR 0xE7, CHR 0x9A, CHR 0x84]"

definition KECHENG_OPEN :: string where \<comment> \<open>U+8BFE U+7A0B U+FF08\<close>
  "KECHENG_OPEN =
    [CHR 0xE8, CHR 0xAF, CHR 0xBE, CHR 0xE7, CHR 0xA8, CHR 0x8B, CHR 0xEF, CHR 0xBC,
     CHR 0x88]"

definition PAREN_CLOSE :: string where \<comment> \<open>U+FF09\<close>
  "PAREN_CLOSE =
    [CHR 0xEF, CHR 0xBC, CHR 0x89]"

definition TIME_UNKNOWN :: string where \<comment> \<open>U+65F6 U+95F4 U+672A U+77E5\<close>
  "TIME_UNKNOWN =
    [CHR 0xE6, CHR 0x97, CHR 0xB6, CHR 0xE9, CHR 0x97, CHR 0xB4, CHR 0xE6, CHR 0x9C,
     CHR 0xAA, CHR 0xE7, CHR 0x9F, CHR 0xA5]"

definition NO_COURSE_INFO :: string where \<comment> \<open>U+65E0 U+8BFE U+7A0B U+4FE1 U+606F\<close>
  "NO_COURSE_INFO =
    [CHR 0xE6, CHR 0x97, CHR 0xA0, CHR 0xE8, CHR 0xAF, CHR 0xBE, CHR 0xE7, CHR 0xA8,
     CHR 0x8B, CHR 0xE4, CHR 0xBF, CHR 0xA1, CHR 0xE6, CHR 0x81, CHR 0xAF]"

definition UNKNOWN_LOCATION :: string where \<comment> \<open>U+672A U+77E5 U+5730 U+70B9\<close>
  "UNKNOWN_LOCATION =
    [CHR 0xE6, CHR 0x9C, CHR 0xAA, CHR 0xE7, CHR 0x9F, CHR 0xA5, CHR 0xE5, CHR 0x9C,
     CHR 0xB0, CHR 0xE7, CHR 0x82, CHR 0xB9]"

definition UNKNOWN_TEACHER :: string where \<comment> \<open>U+672A U+77E5 U+6559 U+5E08\<close>
  "UNKNOWN_TEACHER =
    [CHR 0xE6, CHR 0x9C, CHR 0xAA, CHR 0xE7, CHR 0x9F, CHR 0xA5, CHR 0xE6, CHR 0x95,
     CHR 0x99, CHR 0xE5, CHR 0xB8, CHR 0x88]"

definition JIE :: string where \<comment> \<open>' ' U+8282\<close>
  "JIE =
    [CHR '' '', CHR 0xE8, CHR 0x8A, CHR 0x82]"

definition MSG_SCHEDULE_FAILED :: string where \<comment> \<open>U+751F U+6210 U+7FA4 U+8BFE U+7A0B U+8868 U+56FE U+7247 U+5931 U+8D25 ':' ' '\<close>
  "MSG_SCHEDULE_FAILED =
    [CHR 0xE7, CHR 0x94, CHR 0x9F, CHR 0xE6, CHR 0x88, CHR 0x90, CHR 0xE7, CHR 0xBE,
     CHR 0xA4, CHR 0xE8, CHR 0xAF, CHR 0xBE, CHR 0xE7, CHR 0xA8, CHR 0x8B, CHR 0xE8,
     CHR 0xA1, CHR 0xA8, CHR 0xE5, CHR 0x9B, CHR 0xBE, CHR 0xE7, CHR 0x89, CHR 0x87,
     CHR 0xE5, CHR 0xA4, CHR 0xB1, CHR 0xE8, CHR 0xB4, CHR 0xA5, CHR '':'', CHR '' '']"

definition MSG_USER_SCHEDULE_FAILED :: string where \<comment> \<open>U+751F U+6210 U+7528 U+6237 U+8BFE U+7A0B U+8868 U+56FE U+7247 U+5931 U+8D25 ':' ' '\<close>
  "MSG_USER_SCHEDULE_FAILED =
    [CHR 0xE7, CHR 0x94, CHR 0x9F, CHR 0xE6, CHR 0x88, CHR 0x90, CHR 0xE7, CHR 0x94,
     CHR 0xA8, CHR 0xE6, CHR 0x88, CHR 0xB7, CHR 0xE8, CHR 0xAF, CHR 0xBE, CHR 0xE7,
     CHR 0xA8, CHR 0x8B, CHR 0xE8, CHR 0xA1, CHR 0xA8, CHR 0xE5, CHR 0x9B, CHR 0xBE,
     CHR 0xE7, CHR 0x89, CHR 0x87, CHR 0xE5, CHR 0xA4, CHR 0xB1, CHR 0xE8, CHR 0xB4,
     CHR 0xA5, CHR '':'', CHR '' '']"

definition MSG_RANKING_FAILED :: string where \<comment> \<open>U+751F U+6210 U+6392 U+884C U+699C U+56FE U+7247 U+5931 U+8D25 ':' ' '\<close>
  "MSG_RANKING_FAILED =
    [CHR 0xE7, CHR 0x94, CHR 0x9F, CHR 0xE6, CHR 0x88, CHR 0x90, CHR 0xE6, CHR 0x8E,
     CHR 0x92, CHR 0xE8, CHR 0xA1, CHR 0x8C, CHR 0xE6, CHR 0xA6, CHR 0x9C, CHR 0xE5,
     CHR 0x9B, CHR 0xBE, CHR 0xE7, CHR 0x89, CHR 0x87, CHR 0xE5, CHR 0xA4, CHR 0xB1,
     CHR 0xE8, CHR 0xB4, CHR 0xA5, CHR '':'', CHR '' '']"

definition weeklist :: "string list" where
  "weeklist = [ZHOU_YI, ZHOU_ER, ZHOU_SAN, ZHOU_SI, ZHOU_WU, ZHOU_LIU, ZHOU_RI]"

section \<open>Template variables, the generator and its environment\<close>

record formatted_course =
  time_str :: string
  detail_lines :: "pyval list"

record ranking_row =
  row_index :: nat
  rank :: string
  rank_class :: string
  avatar_url :: string
  nickname :: pyval
  duration_str :: string
  count_str :: string

text \<open>The dictionary \<^verbatim>\<open>template_data\<close> of each of the three operations.\<close>

datatype template_data =
    GroupScheduleData (courses: "pydict list")
  | UserScheduleData (title_lines: "string list") (formatted_courses: "formatted_course list")
      (generate_time: string)
  | RankingData (date_range: string) (ranking_data: "ranking_row list")

text \<open>The arguments of one call of \<^verbatim>\<open>template_to_pic\<close>.\<close>

record render_request =
  rq_template_path :: string
  template_name :: string
  templates :: template_data
  max_width :: nat
  device_height :: nat

text \<open>
  The object \<^verbatim>\<open>self\<close>: the template environment (known by its loader's
  directory), the template path and the font path.
\<close>

record HTMLImageGenerator =
  env :: string
  template_path :: string
  font_path :: string

text \<open>
  What a call can change: the generator object, the error log of \<^verbatim>\<open>logger\<close> and
  the temporary files on disk (path and content).
\<close>

record world =
  self :: HTMLImageGenerator
  error_log :: "string list"
  temp_files :: "(string \<times> bytes) list"

text \<open>
  What the collaborators answer during one call: the renderer for a request, the clock
  (\<open>now tz k\<close> is the value of the \<open>k\<close>-th evaluation of
  \<^verbatim>\<open>datetime.now(timezone(timedelta(hours=tz)))\<close> in this call), the creation of
  the temporary file (its fresh path, or a failure), and the write and close of that
  file.
\<close>

record extern =
  template_to_pic :: "render_request \<Rightarrow> exn + bytes"
  now :: "int \<Rightarrow> nat \<Rightarrow> datetime"
  NamedTemporaryFile :: "exn + string"
  write_error :: "exn option"
  close_error :: "exn option"

definition logger_error :: "string \<Rightarrow> world \<Rightarrow> world" where
  "logger_error msg w = w\<lparr>error_log := error_log w @ [msg]\<rparr>"

text \<open>
  The handler \<^verbatim>\<open>except Exception as e: logger.error(f"...: {e}"); raise\<close> around
  each body: an exception below \<^verbatim>\<open>Exception\<close> is logged and raised again, the
  same object; any other passes through the handler untouched.
\<close>

definition log_and_reraise :: "string \<Rightarrow> (exn + 'a) \<times> world \<Rightarrow> (exn + 'a) \<times> world" where
  "log_and_reraise prefix r =
     (case fst r of
        Inl e \<Rightarrow>
          (if is_Exception e then (Inl e, logger_error (prefix @ exn_str e) (snd r)) else r)
      | Inr v \<Rightarrow> r)"

text \<open>
  The last four statements of each body: create the temporary file
  (\<^verbatim>\<open>delete=False, suffix=".png"\<close>), write the image, close, return the path.
\<close>

definition save_image :: "extern \<Rightarrow> bytes \<Rightarrow> world \<Rightarrow> (exn + string) \<times> world" where
  "save_image ext img_data w =
     (case NamedTemporaryFile ext of
        Inl e \<Rightarrow> (Inl e, w)
      | Inr temp_path \<Rightarrow>
          (let w1 = w\<lparr>temp_files := (temp_path, []) # temp_files w\<rparr> in
           case write_error ext of
             Some e \<Rightarrow> (Inl e, w1)
           | None \<Rightarrow>
               (let w2 = w\<lparr>temp_files := (temp_path, img_data) # temp_files w\<rparr> in
                case close_error ext of
                  Some e \<Rightarrow> (Inl e, w2)
                | None \<Rightarrow> (Inr temp_path, w2))))"

text \<open>Render a request, then save the image.\<close>

definition render_and_save :: "extern \<Rightarrow> render_request \<Rightarrow> world \<Rightarrow> (exn + string) \<times> world" where
  "render_and_save ext rq w =
     (case template_to_pic ext rq of
        Inl e \<Rightarrow> (Inl e, w)
      | Inr img_data \<Rightarrow> save_image ext img_data w)"

section \<open>\<^verbatim>\<open>generate_schedule_image\<close>\<close>

definition schedule_request :: "HTMLImageGenerator \<Rightarrow> pydict list \<Rightarrow> render_request" where
  "schedule_request g cs =
     \<lparr>rq_template_path = template_path g, template_name = ''group_schedule.html'',
      templates = GroupScheduleData cs, max_width = 1200, device_height = 800\<rparr>"

definition generate_schedule_image ::
  "extern \<Rightarrow> pydict list \<Rightarrow> world \<Rightarrow> (exn + string) \<times> world" where
  "generate_schedule_image ext cs w =
     log_and_reraise MSG_SCHEDULE_FAILED
       (render_and_save ext (schedule_request (self w) cs) w)"

section \<open>\<^verbatim>\<open>generate_user_schedule_image\<close>\<close>

definition make_time_str :: "pydict \<Rightarrow> exn + string" where
  "make_time_str course =
     (let start_time = dict_get course ''start_time'';
          end_time = dict_get course ''end_time''
      in if truthy start_time \<and> truthy end_time then
           (case call_strftime start_time ''%H:%M'' of
              Inl e \<Rightarrow> Inl e
            | Inr s \<Rightarrow>
                (case call_strftime end_time ''%H:%M'' of
                   Inl e \<Rightarrow> Inl e
                 | Inr t \<Rightarrow> Inr (s @ '' - '' @ t)))
         else Inr TIME_UNKNOWN)"

definition format_course :: "pydict \<Rightarrow> exn + formatted_course" where
  "format_course course =
     (case make_time_str course of
        Inl e \<Rightarrow> Inl e
      | Inr ts \<Rightarrow>
          (let summary = dict_get_default course ''summary'' (PStr NO_COURSE_INFO);
               location = dict_get_default course ''location'' (PStr UNKNOWN_LOCATION);
               teacher = dict_get_default course ''description'' (PStr UNKNOWN_TEACHER)
           in Inr \<lparr>time_str = ts, detail_lines = [summary, location, teacher]\<rparr>))"

fun format_courses :: "pydict list \<Rightarrow> exn + formatted_course list" where
  "format_courses [] = Inr []"
| "format_courses (course # rest) =
     (case format_course course of
        Inl e \<Rightarrow> Inl e
      | Inr fc \<Rightarrow>
          (case format_courses rest of
             Inl e \<Rightarrow> Inl e
           | Inr fcs \<Rightarrow> Inr (fc # fcs)))"

definition make_title_lines :: "extern \<Rightarrow> string \<Rightarrow> datetime option \<Rightarrow> exn + string list" where
  "make_title_lines ext nick dt =
     (let day_s = (case dt of Some d \<Rightarrow> strftime d ''%m-%d '' | None \<Rightarrow> TODAY);
          wd = (case dt of Some d \<Rightarrow> weekday d | None \<Rightarrow> weekday (now ext 8 0))
      in case list_index weeklist wd of
           Inl e \<Rightarrow> Inl e
         | Inr wname \<Rightarrow> Inr [nick @ DE, day_s @ KECHENG_OPEN @ wname @ PAREN_CLOSE])"

definition make_generate_time :: "extern \<Rightarrow> datetime option \<Rightarrow> string" where
  "make_generate_time ext dt =
     strftime (now ext 8 (case dt of Some d \<Rightarrow> 0 | None \<Rightarrow> 1)) ''%Y-%m-%d %H:%M:%S''"

definition user_schedule_request ::
  "extern \<Rightarrow> HTMLImageGenerator \<Rightarrow> pydict list \<Rightarrow> string \<Rightarrow> datetime option \<Rightarrow>
   exn + render_request" where
  "user_schedule_request ext g cs nick dt =
     (case make_title_lines ext nick dt of
        Inl e \<Rightarrow> Inl e
      | Inr title \<Rightarrow>
          (case format_courses cs of
             Inl e \<Rightarrow> Inl e
           | Inr fcs \<Rightarrow>
               Inr \<lparr>rq_template_path = template_path g, template_name = ''user_schedule.html'',
                    templates = UserScheduleData title fcs (make_generate_time ext dt),
                    max_width = 1000, device_height = 600\<rparr>))"

definition generate_user_schedule_image ::
  "extern \<Rightarrow> pydict list \<Rightarrow> string \<Rightarrow> datetime option \<Rightarrow> world \<Rightarrow> (exn + string) \<times> world" where
  "generate_user_schedule_image ext cs nick dt w =
     log_and_reraise MSG_USER_SCHEDULE_FAILED
       (case user_schedule_request ext (self w) cs nick dt of
          Inl e \<Rightarrow> (Inl e, w)
        | Inr rq \<Rightarrow> render_and_save ext rq w)"

section \<open>\<^verbatim>\<open>generate_ranking_image\<close>\<close>

definition rank_class_of :: "nat \<Rightarrow> string" where
  "rank_class_of r =
     (if r = 1 then ''first'' else if r = 2 then ''second'' else if r = 3 then ''third''
      else ''other'')"

definition make_duration_str :: "rat \<Rightarrow> string" where
  "make_duration_str ts =
     (let hours = py_int (floordiv ts 3600);
          minutes = py_int (floordiv (pymod ts 3600) 60)
      in str_int hours @ ''h '' @ str_int minutes @ ''m'')"

definition make_avatar_url :: "pyval \<Rightarrow> string" where
  "make_avatar_url uid = ''https://q1.qlogo.cn/g?b=qq&nk='' @ py_format uid @ ''&s=100''"

definition format_ranking_row :: "nat \<Rightarrow> pydict \<Rightarrow> exn + ranking_row" where
  "format_ranking_row i data =
     (let rnk = i + 1 in
      case getitem data ''total_duration'' of
        Inl e \<Rightarrow> Inl e
      | Inr dur \<Rightarrow>
      (case call_total_seconds dur of
        Inl e \<Rightarrow> Inl e
      | Inr ts \<Rightarrow>
      (case getitem data ''course_count'' of
        Inl e \<Rightarrow> Inl e
      | Inr cnt \<Rightarrow>
      (case getitem data ''user_id'' of
        Inl e \<Rightarrow> Inl e
      | Inr uid \<Rightarrow>
      (case getitem data ''nickname'' of
        Inl e \<Rightarrow> Inl e
      | Inr nick \<Rightarrow>
          Inr \<lparr>row_index = i, rank = str_nat rnk, rank_class = rank_class_of rnk,
               avatar_url = make_avatar_url uid, nickname = nick,
               duration_str = make_duration_str ts,
               count_str = py_format cnt @ JIE\<rparr>)))))"

text \<open>The loop \<^verbatim>\<open>for i, data in enumerate(ranking_data)\<close>, from index \<open>i\<close> on.\<close>

fun format_ranking_from :: "nat \<Rightarrow> pydict list \<Rightarrow> exn + ranking_row list" where
  "format_ranking_from i [] = Inr []"
| "format_ranking_from i (data # rest) =
     (case format_ranking_row i data of
        Inl e \<Rightarrow> Inl e
      | Inr row \<Rightarrow>
          (case format_ranking_from (i + 1) rest of
             Inl e \<Rightarrow> Inl e
           | Inr rows \<Rightarrow> Inr (row # rows)))"

definition ranking_request ::
  "HTMLImageGenerator \<Rightarrow> pydict list \<Rightarrow> date \<Rightarrow> date \<Rightarrow> exn + render_request" where
  "ranking_request g rd start_date end_date =
     (let dr = date_strftime start_date ''%Y/%m/%d'' @ '' - '' @
               date_strftime end_date ''%Y/%m/%d''
      in case format_ranking_from 0 rd of
           Inl e \<Rightarrow> Inl e
         | Inr rows \<Rightarrow>
             Inr \<lparr>rq_template_path = template_path g, template_name = ''ranking.html'',
                  templates = RankingData dr rows, max_width = 1200, device_height = 800\<rparr>)"

definition generate_ranking_image ::
  "extern \<Rightarrow> pydict list \<Rightarrow> date \<Rightarrow> date \<Rightarrow> world \<Rightarrow> (exn + string) \<times> world" where
  "generate_ranking_image ext rd start_date end_date w =
     log_and_reraise MSG_RANKING_FAILED
       (case ranking_request (self w) rd start_date end_date of
          Inl e \<Rightarrow> (Inl e, w)
        | Inr rq \<Rightarrow> render_and_save ext rq w)"

section \<open>Well-formed inputs and the calls as one type\<close>

text \<open>
  A ranking entry that supplies the four fields of a \<^verbatim>\<open>RankingEntry\<close>, the
  duration as a \<^verbatim>\<open>timedelta\<close>.
\<close>

definition has_key :: "pydict \<Rightarrow> string \<Rightarrow> bool" where
  "has_key d k = (case d k of None \<Rightarrow> False | Some v \<Rightarrow> True)"

definition ranking_entry_ok :: "pydict \<Rightarrow> bool" where
  "ranking_entry_ok d =
     ((case d ''total_duration'' of Some (PTimedelta td) \<Rightarrow> True | _ \<Rightarrow> False) \<and>
      has_key d ''course_count'' \<and> has_key d ''user_id'' \<and> has_key d ''nickname'')"

text \<open>
  A field is missing when its key is absent or its value is \<^verbatim>\<open>None\<close>. A course
  entry is typed as a \<^verbatim>\<open>CourseEntry\<close> when each of its two times is missing or a
  \<^verbatim>\<open>datetime\<close>.
\<close>

definition missing :: "pydict \<Rightarrow> string \<Rightarrow> bool" where
  "missing d k = (case d k of None \<Rightarrow> True | Some v \<Rightarrow> v = PNone)"

definition optional_datetime :: "pydict \<Rightarrow> string \<Rightarrow> bool" where
  "optional_datetime d k =
     (case d k of None \<Rightarrow> True | Some PNone \<Rightarrow> True | Some (PDatetime t) \<Rightarrow> True
      | Some v \<Rightarrow> False)"

definition course_times_typed :: "pydict \<Rightarrow> bool" where
  "course_times_typed d = (optional_datetime d ''start_time'' \<and> optional_datetime d ''end_time'')"

text \<open>The display form \<^verbatim>\<open>HH:MM\<close> of a timestamp.\<close>

definition hhmm :: "datetime \<Rightarrow> string" where
  "hhmm t = zero_pad 2 (hour t) @ '':'' @ zero_pad 2 (minute t)"

text \<open>
  The first failure among the external steps of a call for request \<open>rq\<close>: the
  renderer, then the creation, the write and the close of the temporary file.
\<close>

definition external_failure :: "extern \<Rightarrow> render_request \<Rightarrow> exn option" where
  "external_failure ext rq =
     (case template_to_pic ext rq of
        Inl e \<Rightarrow> Some e
      | Inr img_data \<Rightarrow>
          (case NamedTemporaryFile ext of
             Inl e \<Rightarrow> Some e
           | Inr temp_path \<Rightarrow>
               (case write_error ext of
                  Some e \<Rightarrow> Some e
                | None \<Rightarrow> close_error ext)))"

text \<open>The three public operations as one type of calls, and their execution.\<close>

datatype call =
    ScheduleCall "pydict list"
  | UserScheduleCall "pydict list" string "datetime option"
  | RankingCall "pydict list" date date

fun run :: "extern \<Rightarrow> call \<Rightarrow> world \<Rightarrow> (exn + string) \<times> world" where
  "run ext (ScheduleCall cs) w = generate_schedule_image ext cs w"
| "run ext (UserScheduleCall cs nick dt) w = generate_user_schedule_image ext cs nick dt w"
| "run ext (RankingCall rd start_date end_date) w =
     generate_ranking_image ext rd start_date end_date w"

section \<open>Sample inputs\<close>

definition sample_generator :: HTMLImageGenerator where
  "sample_generator =
     \<lparr>env = ''/plugin/templates'', template_path = ''/plugin/templates'',
      font_path = ''/plugin/resources/MapleMono-NF-CN-Medium.ttf''\<rparr>"

definition sample_world :: world where
  "sample_world = \<lparr>self = sample_generator, error_log = [], temp_files = []\<rparr>"

definition sample_datetime :: datetime where
  "sample_datetime =
     \<lparr>year = 2024, month = 1, day = 1, hour = 8, minute = 5, second = 0, microsecond = 0\<rparr>"

definition sample_date :: date where
  "sample_date = \<lparr>year = 2024, month = 1, day = 1\<rparr>"

definition sample_extern :: extern where
  "sample_extern =
     \<lparr>template_to_pic = (\<lambda>rq. Inr ''PNG''), now = (\<lambda>tz k. sample_datetime),
      NamedTemporaryFile = Inr ''/tmp/tmpab12.png'', write_error = None, close_error = None\<rparr>"

definition failing_extern :: extern where
  "failing_extern =
     \<lparr>template_to_pic = (\<lambda>rq. Inl (ExternalError ''TemplateNotFound'' ''group_schedule.html'')),
      now = (\<lambda>tz k. sample_datetime),
      NamedTemporaryFile = Inr ''/tmp/tmpab12.png'', write_error = None, close_error = None\<rparr>"

definition cancelled_extern :: extern where
  "cancelled_extern =
     \<lparr>template_to_pic = (\<lambda>rq. Inl (BaseError ''CancelledError'' [])),
      now = (\<lambda>tz k. sample_datetime),
      NamedTemporaryFile = Inr ''/tmp/tmpab12.png'', write_error = None, close_error = None\<rparr>"

definition sample_entry :: "int \<Rightarrow> string \<Rightarrow> int \<Rightarrow> int \<Rightarrow> pydict" where
  "sample_entry uid nick secs cnt =
     [''user_id'' \<mapsto> PInt uid, ''nickname'' \<mapsto> PStr nick,
      ''total_duration'' \<mapsto> PTimedelta (timedelta_of_seconds secs),
      ''course_count'' \<mapsto> PInt cnt]"

definition sample_ranking :: "pydict list" where
  "sample_ranking =
     [sample_entry 123456 ''alice'' 3661 2, sample_entry 20002 ''bob'' 3600 1,
      sample_entry 30003 ''carol'' 59 1, sample_entry 40004 ''dave'' 0 0]"

definition long_duration :: timedelta where
  "long_duration = \<lparr>days = 900000000, seconds = 3599, microseconds = 999999\<rparr>"

definition long_ranking :: "pydict list" where
  "long_ranking =
     [[''user_id'' \<mapsto> PInt 123456, ''nickname'' \<mapsto> PStr ''alice'',
       ''total_duration'' \<mapsto> PTimedelta long_duration, ''course_count'' \<mapsto> PInt 2]]"

definition fraction_ranking :: "pydict list" where
  "fraction_ranking =
     [[''user_id'' \<mapsto> PInt 123456, ''nickname'' \<mapsto> PStr ''alice'',
       ''total_duration'' \<mapsto> PTimedelta \<lparr>days = 0, seconds = 5459, microseconds = 999999\<rparr>,
       ''course_count'' \<mapsto> PInt 2]]"

definition negative_ranking :: "pydict list" where
  "negative_ranking = [sample_entry 123456 ''alice'' (- 1) 2]"

definition broken_ranking :: "pydict list" where
  "broken_ranking =
     [sample_entry 123456 ''alice'' 3661 2,
      [''user_id'' \<mapsto> PInt 20002, ''total_duration'' \<mapsto> PTimedelta (timedelta_of_seconds 60),
       ''course_count'' \<mapsto> PInt 1]]"

definition sample_course :: pydict where
  "sample_course =
     [''summary'' \<mapsto> PNone, ''description'' \<mapsto> PStr ''Dr. Li'',
      ''start_time'' \<mapsto> PNone, ''end_time'' \<mapsto> PDatetime sample_datetime]"

definition timed_course :: pydict where
  "timed_course =
     [''summary'' \<mapsto> PStr ''Algebra'', ''location'' \<mapsto> PStr ''A101'',
      ''start_time'' \<mapsto> PDatetime sample_datetime,
      ''end_time'' \<mapsto> PDatetime (sample_datetime\<lparr>hour := 9, minute := 40\<rparr>)]"

section \<open>Floats that hold whole numbers, and the rounding error\<close>

lemma ilog2_le: "n < 2 ^ Suc m \<Longrightarrow> ilog2 n \<le> m"
proof (induction m arbitrary: n)
  case 0
  then show ?case by (simp add: ilog2.simps)
next
  case (Suc m)
  show ?case
  proof (cases "n < 2")
    case True
    then show ?thesis by (simp add: ilog2.simps)
  next
    case False
    from Suc.prems have "n div 2 < 2 ^ Suc m" by simp
    from Suc.IH [OF this] False show ?thesis
      by (subst ilog2.simps) simp
  qed
qed

lemma round_half_even_of_int: "round_half_even (of_int j) = j"
  by (simp add: round_half_even_def)

lemma pow2_below: "e \<le> 52 \<Longrightarrow> pow2 (int e - 52) = 1 / 2 ^ (52 - e)"
proof (cases "e = 52")
  case True
  then show ?thesis by (simp add: pow2_def)
next
  case False
  assume "e \<le> 52"
  with False have "e < 52" by simp
  then have "nat (52 - int e) = 52 - e" by simp
  with \<open>e < 52\<close> show ?thesis by (simp add: pow2_def)
qed

lemma round_double_of_int:
  assumes "\<bar>k\<bar> < 2 ^ 53"
  shows "round_double (of_int k) = of_int k"
proof (cases "k = 0")
  case True
  then show ?thesis by (simp add: round_double_def)
next
  case False
  define e where "e = ilog2 (nat \<bar>k\<bar>)"
  from assms have "nat \<bar>k\<bar> < 2 ^ Suc 52"
    by (simp add: nat_less_iff)
  then have e: "e \<le> 52" unfolding e_def by (rule ilog2_le)
  from False have one: "(1::rat) \<le> \<bar>of_int k\<bar>" by simp
  have fl: "\<lfloor>\<bar>of_int k :: rat\<bar>\<rfloor> = \<bar>k\<bar>"
    by (simp only: of_int_abs [symmetric] floor_of_int)
  have be: "binary_exponent \<bar>of_int k\<bar> = int e"
    using one by (simp only: binary_exponent_def e_def fl if_True)
  have u: "pow2 (binary_exponent \<bar>of_int k\<bar> - 52) = 1 / 2 ^ (52 - e)"
    unfolding be using e by (rule pow2_below)
  have q: "(of_int k :: rat) / (1 / 2 ^ (52 - e)) = of_int (k * 2 ^ (52 - e))"
    by simp
  have "round_double (of_int k) =
      of_int (round_half_even (of_int k / (1 / 2 ^ (52 - e)))) * (1 / 2 ^ (52 - e))"
    using False by (simp only: round_double_def Let_def u of_int_eq_0_iff if_False)
  also have "\<dots> = of_int (k * 2 ^ (52 - e)) * (1 / 2 ^ (52 - e))"
    by (simp only: q round_half_even_of_int)
  also have "\<dots> = of_int k" by simp
  finally show ?thesis .
qed

lemma round_double_0: "round_double 0 = 0"
  by (simp add: round_double_def)

lemma py_int_div:
  assumes "0 < b"
  shows "py_int (of_int a / of_int b) = (if 0 \<le> a \<or> a mod b = 0 then a div b else a div b + 1)"
proof (cases "0 \<le> a")
  case True
  with assms have "(0::rat) \<le> of_int a / of_int b" by simp
  with True show ?thesis by (simp add: py_int_def floor_divide_of_int_eq)
next
  case False
  with assms have neg: "\<not> (0::rat) \<le> of_int a / of_int b"
    by (simp add: zero_le_divide_iff)
  have "\<lceil>(of_int a :: rat) / of_int b\<rceil> = - \<lfloor>(of_int (- a) :: rat) / of_int b\<rfloor>"
    by (simp add: ceiling_def)
  also have "\<dots> = - ((- a) div b)"
    by (simp only: floor_divide_of_int_eq)
  also have "\<dots> = (if a mod b = 0 then a div b else a div b + 1)"
    using assms by (simp add: zdiv_zminus1_eq_if)
  finally show ?thesis using False neg by (simp add: py_int_def)
qed

lemma fmod_of_int:
  assumes "0 < b"
  shows "fmod (of_int a) (of_int b) =
     of_int (if 0 \<le> a \<or> a mod b = 0 then a mod b else a mod b - b)"
proof -
  have m: "a - b * (a div b) = a mod b"
    by (simp add: minus_mult_div_eq_mod)
  have "fmod (of_int a) (of_int b) =
      of_int (a - b * (if 0 \<le> a \<or> a mod b = 0 then a div b else a div b + 1))"
    by (simp only: fmod_def py_int_div [OF assms] of_int_diff of_int_mult)
  also have "a - b * (if 0 \<le> a \<or> a mod b = 0 then a div b else a div b + 1) =
      (if 0 \<le> a \<or> a mod b = 0 then a mod b else a mod b - b)"
    using m by (simp add: algebra_simps)
  finally show ?thesis .
qed

lemma abs_div_le:
  assumes "0 < b"
  shows "\<bar>a div b\<bar> \<le> \<bar>a :: int\<bar>"
proof (cases "0 \<le> a")
  case True
  from assms have "1 \<le> b" by simp
  from zdiv_mono2 [OF True _ this] have "a div b \<le> a" by simp
  moreover from True assms have "0 \<le> a div b"
    by (simp add: pos_imp_zdiv_nonneg_iff)
  ultimately show ?thesis using True by simp
next
  case False
  then have an: "a < 0" by simp
  from assms have "1 \<le> b" by simp
  from zdiv_mono2_neg [OF an _ this] have "a \<le> a div b" by simp
  moreover from an assms have "a div b < 0" by (simp add: div_neg_pos_less0)
  ultimately show ?thesis using an by simp
qed

text \<open>
  One float floor division by a positive whole divisor, when the difference of dividend
  and remainder is a whole multiple of the divisor: no step rounds.
\<close>

lemma floordiv_steps:
  assumes "fmod vx wx = md" and "vx - md = of_int (t * w)"
    and "wx = of_int w" and "\<bar>t * w\<bar> < 2 ^ 53" and "\<bar>t\<bar> < 2 ^ 53"
    and "md < 0 \<Longrightarrow> \<bar>t - 1\<bar> < 2 ^ 53" and "0 < w"
  shows "floordiv vx wx = of_int (if md < 0 then t - 1 else t)"
proof -
  have s1: "round_double (vx - md) = of_int (t * w)"
    unfolding assms(2) by (rule round_double_of_int [OF assms(4)])
  have "(of_int (t * w) :: rat) / of_int w = of_int t"
    using assms(7) by simp
  then have s2: "round_double (of_int (t * w) / wx) = of_int t"
    unfolding assms(3) using round_double_of_int [OF assms(5)] by simp
  have s3: "round_double (of_int t - 1) = of_int (t - 1)" if "md < 0"
    using round_double_of_int [OF assms(6) [OF that]] by simp
  have w: "\<not> wx < 0" using assms(3,7) by simp
  have fin: "(if (of_int q :: rat) \<noteq> 0 then
       (let fl = of_int \<lfloor>of_int q :: rat\<rfloor>
        in if 1 / 2 < round_double (of_int q - fl) then round_double (fl + 1) else fl)
      else 0) = of_int q" for q :: int
    by (simp add: round_double_0)
  show ?thesis
  proof (cases "md < 0")
    case True
    then have "md \<noteq> 0" by simp
    with True have "floordiv vx wx = (if (of_int (t - 1) :: rat) \<noteq> 0 then
       (let fl = of_int \<lfloor>of_int (t - 1) :: rat\<rfloor>
        in if 1 / 2 < round_double (of_int (t - 1) - fl) then round_double (fl + 1) else fl)
      else 0)"
      using w by (simp only: floordiv_def Let_def assms(1) s1 s2 s3 [OF True] if_True simp_thms)
    then show ?thesis using True by (simp only: fin if_True)
  next
    case False
    then have "floordiv vx wx = (if (of_int t :: rat) \<noteq> 0 then
       (let fl = of_int \<lfloor>of_int t :: rat\<rfloor>
        in if 1 / 2 < round_double (of_int t - fl) then round_double (fl + 1) else fl)
      else 0)"
      using w by (simp only: floordiv_def Let_def assms(1) s1 s2 if_False simp_thms)
    then show ?thesis using False by (simp only: fin if_False)
  qed
qed

lemma floordiv_whole:
  assumes "0 < b" and "\<bar>a\<bar> < 2 ^ 53"
  shows "floordiv (of_int a) (of_int b) = of_int (a div b)"
proof -
  define r where "r = (if 0 \<le> a \<or> a mod b = 0 then a mod b else a mod b - b)"
  define t where "t = (if 0 \<le> a \<or> a mod b = 0 then a div b else a div b + 1)"
  have md: "fmod (of_int a) (of_int b) = (of_int r :: rat)"
    unfolding r_def by (rule fmod_of_int [OF assms(1)])
  have m0: "0 \<le> a mod b" by (rule pos_mod_sign [OF assms(1)])
  have m1: "a mod b < b" by (rule pos_mod_bound [OF assms(1)])
  have dm: "a = b * (a div b) + a mod b" by simp
  have bq: "\<bar>a div b\<bar> \<le> \<bar>a\<bar>" by (rule abs_div_le [OF assms(1)])
  have ar: "a - r = t * b"
    unfolding r_def t_def using dm by (simp add: algebra_simps)
  have res: "(if r < 0 then t - 1 else t) = a div b"
    unfolding r_def t_def using m0 m1 by auto
  have tb: "\<bar>t * b\<bar> \<le> \<bar>a\<bar>"
  proof (cases "0 \<le> a")
    case True
    then have "r = a mod b" by (simp add: r_def)
    moreover from True have "a mod b \<le> a" by (rule zmod_le_nonneg_dividend)
    ultimately have "0 \<le> a - r" "a - r \<le> a" using m0 by simp_all
    then show ?thesis using True ar by simp
  next
    case False
    then have an: "a < 0" by simp
    show ?thesis
    proof (cases "a mod b = 0")
      case True
      then have "r = 0" by (simp add: r_def)
      with ar show ?thesis by simp
    next
      case nz: False
      with an have r: "r = a mod b - b" and t: "t = a div b + 1" by (simp_all add: r_def t_def)
      from an assms(1) have "a div b < 0" by (simp add: div_neg_pos_less0)
      with t have "t \<le> 0" by simp
      with assms(1) have "t * b \<le> 0" by (simp add: mult_le_0_iff)
      moreover from r m1 have "a \<le> a - r" by simp
      ultimately show ?thesis using ar an by simp
    qed
  qed
  have tq: "\<bar>t\<bar> \<le> \<bar>a\<bar> \<and> \<bar>t - 1\<bar> \<le> \<bar>a\<bar> + 1"
  proof (cases "0 \<le> a \<or> a mod b = 0")
    case True
    then have "t = a div b" by (simp add: t_def)
    with bq show ?thesis by simp
  next
    case False
    then have an: "a < 0" and t: "t = a div b + 1" by (simp_all add: t_def)
    from an assms(1) have "a div b < 0" by (simp add: div_neg_pos_less0)
    with t bq show ?thesis by simp
  qed
  have t1: "\<bar>t - 1\<bar> < 2 ^ 53" if "r < 0"
  proof -
    from that m0 have "\<not> (0 \<le> a \<or> a mod b = 0)"
      by (auto simp: r_def)
    then have "t = a div b + 1" by (simp add: t_def)
    with bq assms(2) show ?thesis by simp
  qed
  have "floordiv (of_int a) (of_int b) = of_int (if r < 0 then t - 1 else t)"
  proof -
    have "floordiv (of_int a) (of_int b) = of_int (if (of_int r :: rat) < 0 then t - 1 else t)"
    proof (rule floordiv_steps [where w = b])
      show "fmod (of_int a) (of_int b) = (of_int r :: rat)" by (rule md)
      show "(of_int a :: rat) - of_int r = of_int (t * b)"
        using ar by (metis of_int_diff)
      show "(of_int b :: rat) = of_int b" ..
      show "\<bar>t * b\<bar> < 2 ^ 53" using tb assms(2) by simp
      show "\<bar>t\<bar> < 2 ^ 53" using tq assms(2) by simp
      show "(of_int r :: rat) < 0 \<Longrightarrow> \<bar>t - 1\<bar> < 2 ^ 53" using t1 by simp
      show "0 < b" by (rule assms(1))
    qed
    then show ?thesis by simp
  qed
  then show ?thesis by (simp only: res)
qed

lemma pymod_whole:
  assumes "0 < b" and "b < 2 ^ 53"
  shows "pymod (of_int a) (of_int b) = of_int (a mod b)"
proof -
  define r where "r = (if 0 \<le> a \<or> a mod b = 0 then a mod b else a mod b - b)"
  have md: "fmod (of_int a) (of_int b) = (of_int r :: rat)"
    unfolding r_def by (rule fmod_of_int [OF assms(1)])
  have m0: "0 \<le> a mod b" by (rule pos_mod_sign [OF assms(1)])
  have m1: "a mod b < b" by (rule pos_mod_bound [OF assms(1)])
  from m0 m1 assms(2) have bm: "\<bar>a mod b\<bar> < 2 ^ 53" by simp
  have w: "\<not> (of_int b :: rat) < 0" using assms(1) by simp
  show ?thesis
  proof (cases "0 \<le> a \<or> a mod b = 0")
    case True
    then have r: "r = a mod b" by (simp add: r_def)
    with m0 have "\<not> (of_int r :: rat) < 0" by simp
    then show ?thesis using w by (simp add: pymod_def Let_def md r)
  next
    case False
    then have r: "r = a mod b - b" and nz: "a mod b \<noteq> 0"
      by (simp_all add: r_def)
    from m1 r have rneg: "(of_int r :: rat) < 0" "(of_int r :: rat) \<noteq> 0" by simp_all
    have "(of_int r :: rat) + of_int b = of_int (a mod b)" using r by simp
    then have "round_double (of_int r + of_int b) = of_int (a mod b)"
      using round_double_of_int [OF bm] by simp
    then show ?thesis using rneg w by (simp add: pymod_def Let_def md)
  qed
qed


lemma floor_divide_int:
  assumes "0 < n"
  shows "\<lfloor>(x :: rat) / of_int n\<rfloor> = \<lfloor>x\<rfloor> div n"
proof (rule floor_unique)
  define f where "f = \<lfloor>x\<rfloor>"
  have f: "of_int f \<le> x" "x < of_int f + 1"
    using floor_correct [of x] by (simp_all add: f_def)
  have m0: "0 \<le> f mod n" by (rule pos_mod_sign [OF assms])
  have m1: "f mod n < n" by (rule pos_mod_bound [OF assms])
  have dm: "f = n * (f div n) + f mod n" by simp
  have n: "(0::rat) < of_int n" using assms by simp
  have "n * (f div n) \<le> f" using dm m0 by linarith
  then have "(of_int (n * (f div n)) :: rat) \<le> of_int f" by (simp only: of_int_le_iff)
  with f(1) have "(of_int (f div n) :: rat) * of_int n \<le> x" by (simp add: mult.commute)
  then show "of_int (\<lfloor>x\<rfloor> div n) \<le> x / of_int n"
    using n by (simp add: pos_le_divide_eq f_def)
  have "f + 1 \<le> n * (f div n) + n" using dm m1 by linarith
  then have "(of_int (f + 1) :: rat) \<le> of_int (n * (f div n) + n)" by (simp only: of_int_le_iff)
  with f(2) have "x < (of_int (f div n) + 1) * of_int n" by (simp add: algebra_simps)
  then show "x / of_int n < of_int (\<lfloor>x\<rfloor> div n) + 1"
    using n by (simp add: pos_divide_less_eq f_def)
qed

lemma fmod_nonneg:
  assumes "0 \<le> x" and "0 < w"
  shows "fmod x (of_int w) = x - of_int (\<lfloor>x\<rfloor> div w * w)"
proof -
  from assms have "0 \<le> x / of_int w" by simp
  then have "py_int (x / of_int w) = \<lfloor>x\<rfloor> div w"
    by (simp add: py_int_def floor_divide_int [OF assms(2)])
  then show ?thesis by (simp add: fmod_def mult.commute)
qed

lemma floor_fmod_nonneg:
  assumes "0 \<le> x" and "0 < w"
  shows "0 \<le> fmod x (of_int w)" and "\<lfloor>fmod x (of_int w)\<rfloor> = \<lfloor>x\<rfloor> mod w"
proof -
  have fl: "\<lfloor>fmod x (of_int w)\<rfloor> = \<lfloor>x\<rfloor> - \<lfloor>x\<rfloor> div w * w"
    unfolding fmod_nonneg [OF assms] by (rule floor_diff_of_int)
  also have "\<dots> = \<lfloor>x\<rfloor> mod w"
    by (simp add: minus_div_mult_eq_mod)
  finally show fm: "\<lfloor>fmod x (of_int w)\<rfloor> = \<lfloor>x\<rfloor> mod w" .
  have "0 \<le> \<lfloor>x\<rfloor> mod w" by (rule pos_mod_sign [OF assms(2)])
  with fm have "0 \<le> \<lfloor>fmod x (of_int w)\<rfloor>" by simp
  then show "0 \<le> fmod x (of_int w)" by (simp only: zero_le_floor)
qed

lemma floordiv_nonneg:
  assumes "0 \<le> x" and "x < 2 ^ 53" and "0 < w"
  shows "floordiv x (of_int w) = of_int (\<lfloor>x\<rfloor> div w)"
proof -
  define t where "t = \<lfloor>x\<rfloor> div w"
  have f0: "0 \<le> \<lfloor>x\<rfloor>" using assms(1) by simp
  have "\<lfloor>x\<rfloor> < 2 ^ 53" using assms(2) by (simp add: floor_less_iff)
  with f0 have fb: "\<bar>\<lfloor>x\<rfloor>\<bar> < 2 ^ 53" by simp
  have t0: "0 \<le> t" using f0 assms(3) by (simp add: t_def pos_imp_zdiv_nonneg_iff)
  have "\<bar>t\<bar> \<le> \<bar>\<lfloor>x\<rfloor>\<bar>" unfolding t_def by (rule abs_div_le [OF assms(3)])
  with fb have tb: "\<bar>t\<bar> < 2 ^ 53" by simp
  have m0: "0 \<le> \<lfloor>x\<rfloor> mod w" by (rule pos_mod_sign [OF assms(3)])
  have "t * w = \<lfloor>x\<rfloor> - \<lfloor>x\<rfloor> mod w"
    unfolding t_def by (simp add: minus_mod_eq_div_mult)
  moreover have "\<lfloor>x\<rfloor> mod w \<le> \<lfloor>x\<rfloor>" by (rule zmod_le_nonneg_dividend [OF f0])
  ultimately have "0 \<le> t * w" "t * w \<le> \<lfloor>x\<rfloor>" using m0 by simp_all
  with fb have tw: "\<bar>t * w\<bar> < 2 ^ 53" by simp
  have nn: "\<not> fmod x (of_int w) < 0"
    using floor_fmod_nonneg(1) [OF assms(1,3)] by simp
  have "floordiv x (of_int w) = of_int (if fmod x (of_int w) < 0 then t - 1 else t)"
  proof (rule floordiv_steps [where w = w])
    show "fmod x (of_int w) = fmod x (of_int w)" ..
    show "x - fmod x (of_int w) = of_int (t * w)"
      by (simp add: fmod_nonneg [OF assms(1,3)] t_def)
    show "(of_int w :: rat) = of_int w" ..
    show "\<bar>t * w\<bar> < 2 ^ 53" by (rule tw)
    show "\<bar>t\<bar> < 2 ^ 53" by (rule tb)
    show "fmod x (of_int w) < 0 \<Longrightarrow> \<bar>t - 1\<bar> < 2 ^ 53" using nn by simp
    show "0 < w" by (rule assms(3))
  qed
  with nn show ?thesis by (simp add: t_def)
qed

lemma pymod_nonneg:
  assumes "0 \<le> x" and "0 < w"
  shows "pymod x (of_int w) = fmod x (of_int w)"
proof -
  have nn: "\<not> fmod x (of_int w) < 0"
    using floor_fmod_nonneg(1) [OF assms] by simp
  then show ?thesis using assms(2) by (simp add: pymod_def Let_def)
qed

text \<open>Hours and minutes of a non-negative float below \<open>2\<^sup>5\<^sup>3\<close>.\<close>

lemma hours_minutes_nonneg:
  assumes "0 \<le> x" and "x < 2 ^ 53"
  shows "py_int (floordiv x 3600) = \<lfloor>x\<rfloor> div 3600"
    and "py_int (floordiv (pymod x 3600) 60) = \<lfloor>x\<rfloor> mod 3600 div 60"
proof -
  have h: "floordiv x 3600 = of_int (\<lfloor>x\<rfloor> div 3600)"
    using floordiv_nonneg [OF assms, of 3600] by simp
  then show "py_int (floordiv x 3600) = \<lfloor>x\<rfloor> div 3600"
    by (simp add: py_int_def)
  have p: "pymod x 3600 = fmod x 3600"
    using pymod_nonneg [OF assms(1), of 3600] by simp
  have y0: "0 \<le> fmod x 3600" and yf: "\<lfloor>fmod x 3600\<rfloor> = \<lfloor>x\<rfloor> mod 3600"
    using floor_fmod_nonneg [OF assms(1), of 3600] by simp_all
  have "\<lfloor>x\<rfloor> mod 3600 < 3600" by simp
  with yf have "\<lfloor>fmod x 3600\<rfloor> < 2 ^ 53" by simp
  then have y1: "fmod x 3600 < 2 ^ 53" by (simp add: floor_less_iff)
  have "floordiv (fmod x 3600) 60 = of_int (\<lfloor>fmod x 3600\<rfloor> div 60)"
    using floordiv_nonneg [OF y0 y1, of 60] by simp
  then show "py_int (floordiv (pymod x 3600) 60) = \<lfloor>x\<rfloor> mod 3600 div 60"
    by (simp add: p yf py_int_def)
qed


text \<open>The rounding error of a float is at most half a unit in the last place.\<close>

lemma round_half_even_err: "\<bar>of_int (round_half_even q) - q\<bar> \<le> 1 / 2"
proof -
  define f where "f = \<lfloor>q\<rfloor>"
  have f: "of_int f \<le> q" "q < of_int f + 1"
    using floor_correct [of q] by (simp_all add: f_def)
  show ?thesis
    using f unfolding round_half_even_def Let_def f_def [symmetric]
    by (auto simp: abs_if)
qed

lemma pow2_pos: "0 < pow2 k"
  by (simp add: pow2_def)

lemma round_double_err: "\<bar>round_double x - x\<bar> \<le> pow2 (binary_exponent \<bar>x\<bar> - 52) / 2"
proof (cases "x = 0")
  case True
  then show ?thesis using pow2_pos [of "binary_exponent \<bar>x\<bar> - 52"]
    by (simp add: round_double_def)
next
  case False
  define u where "u = pow2 (binary_exponent \<bar>x\<bar> - 52)"
  have u: "0 < u" unfolding u_def by (rule pow2_pos)
  have "round_double x - x = (of_int (round_half_even (x / u)) - x / u) * u"
    using False u by (simp add: round_double_def Let_def u_def [symmetric] algebra_simps)
  then have "\<bar>round_double x - x\<bar> = \<bar>of_int (round_half_even (x / u)) - x / u\<bar> * u"
    using u by (simp add: abs_mult)
  also have "\<dots> \<le> 1 / 2 * u"
    using round_half_even_err [of "x / u"] u by (rule mult_right_mono [OF _ less_imp_le])
  finally show ?thesis by (simp add: u_def)
qed

lemma binary_exponent_le:
  assumes "0 < x" and "x < 2 ^ 33"
  shows "binary_exponent x \<le> 32"
proof (cases "1 \<le> x")
  case True
  define f where "f = \<lfloor>x\<rfloor>"
  from assms(2) have "f < 2 ^ 33" by (simp add: f_def floor_less_iff)
  then have "nat f < 2 ^ Suc 32" by (simp add: nat_less_iff)
  then have "ilog2 (nat f) \<le> 32" by (rule ilog2_le)
  with True show ?thesis by (simp add: binary_exponent_def f_def)
next
  case False
  then show ?thesis by (simp add: binary_exponent_def)
qed

lemma pow2_le:
  assumes "k \<le> - 20"
  shows "pow2 k \<le> 1 / 2 ^ 20"
proof -
  from assms have n: "20 \<le> nat (- k)" by simp
  have "(2::rat) ^ 20 \<le> 2 ^ nat (- k)"
    by (rule power_increasing [OF n]) simp
  then have "1 / (2::rat) ^ nat (- k) \<le> 1 / 2 ^ 20"
    by (simp add: frac_le)
  with assms show ?thesis by (simp add: pow2_def)
qed

lemma round_double_near:
  assumes "0 < x" and "x < 2 ^ 33"
  shows "\<bar>round_double x - x\<bar> \<le> 1 / 2 ^ 21"
proof -
  from assms(1) have ax: "\<bar>x\<bar> = x" by simp
  from binary_exponent_le [OF assms] have "binary_exponent x - 52 \<le> - 20" by simp
  from pow2_le [OF this] have "pow2 (binary_exponent x - 52) / 2 \<le> 1 / 2 ^ 20 / 2" by simp
  with round_double_err [of x] show ?thesis unfolding ax by simp
qed

text \<open>
  A float made from whole seconds \<open>W\<close> and \<open>u\<close> microseconds, for a duration of
  at most \<open>2\<^sup>3\<^sup>3\<close> seconds, lies in the second it started in.
\<close>

lemma seconds_float_floor:
  assumes "0 \<le> W" and "W < 2 ^ 33" and "0 \<le> u" and "u < 1000000"
  shows "of_int W \<le> round_double (of_int (W * 1000000 + u) / 1000000)"
    and "round_double (of_int (W * 1000000 + u) / 1000000) < of_int W + 1"
proof -
  define S :: rat where "S = of_int (W * 1000000 + u) / 1000000"
  have S: "S = of_int W + of_int u / 1000000" by (simp add: S_def)
  have both: "of_int W \<le> round_double S \<and> round_double S < of_int W + 1"
  proof (cases "u = 0")
    case True
    from assms(1,2) have "\<bar>W\<bar> < 2 ^ 53" by simp
    from round_double_of_int [OF this] True S show ?thesis by simp
  next
    case False
    with assms(3) have "1 \<le> u" by simp
    then have "(1::rat) \<le> of_int u" by simp
    then have lo: "of_int W + 1 / 1000000 \<le> S" unfolding S by (simp add: divide_right_mono)
    from assms(4) have "u \<le> 999999" by simp
    then have "(of_int u :: rat) \<le> 999999" by (simp only: of_int_le_iff [symmetric, where ?'a = rat] of_int_numeral)
    then have hi: "S \<le> of_int W + 999999 / 1000000" unfolding S by (simp add: divide_right_mono)
    from assms(1) have "(0::rat) \<le> of_int W" by simp
    with lo have pos: "0 < S" by simp
    from assms(2) have "W + 1 \<le> 2 ^ 33" by simp
    then have "(of_int (W + 1) :: rat) \<le> of_int (2 ^ 33)" by (simp only: of_int_le_iff)
    then have "(of_int W :: rat) + 1 \<le> 2 ^ 33" by simp
    with hi have lt: "S < 2 ^ 33" by simp
    from round_double_near [OF pos lt] have "\<bar>round_double S - S\<bar> \<le> 1 / 2 ^ 21" .
    then have "S - 1 / 2 ^ 21 \<le> round_double S" "round_double S \<le> S + 1 / 2 ^ 21"
      by linarith+
    with lo hi show ?thesis by simp
  qed
  then show "of_int W \<le> round_double (of_int (W * 1000000 + u) / 1000000)"
    and "round_double (of_int (W * 1000000 + u) / 1000000) < of_int W + 1"
    by (simp_all add: S_def)
qed

text \<open>Rounding a positive quotient of integers that is at least 1, computed on integers.\<close>

lemma round_double_quotient:
  assumes "0 < d" and "1 \<le> n div d" and "e = ilog2 (nat (n div d))" and "e \<le> 52"
    and "f = (n * 2 ^ (52 - e)) div d" and "r = (n * 2 ^ (52 - e)) mod d"
  shows "round_double (of_int n / of_int d) =
     of_int (if 2 * r < d then f else if d < 2 * r then f + 1 else if even f then f else f + 1)
       / 2 ^ (52 - e)"
proof -
  define x :: rat where "x = of_int n / of_int d"
  define k where "k = 52 - e"
  have dp: "(0::rat) < of_int d" using assms(1) by simp
  have fx: "\<lfloor>x\<rfloor> = n div d" by (simp add: x_def floor_divide_of_int_eq)
  with assms(2) have "1 \<le> \<lfloor>x\<rfloor>" by simp
  then have x1: "1 \<le> x" by (simp add: le_floor_iff)
  then have xn: "x \<noteq> 0" and ax: "\<bar>x\<bar> = x" by simp_all
  have be: "binary_exponent x = int e"
    using x1 by (simp only: binary_exponent_def fx assms(3) if_True)
  have u: "pow2 (binary_exponent \<bar>x\<bar> - 52) = 1 / 2 ^ k"
    unfolding ax be k_def using assms(4) by (rule pow2_below)
  have q: "x / (1 / 2 ^ k) = of_int (n * 2 ^ k) / of_int d"
    by (simp add: x_def)
  have fq: "\<lfloor>(of_int (n * 2 ^ k) :: rat) / of_int d\<rfloor> = f"
    by (simp only: floor_divide_of_int_eq assms(5) k_def)
  have "n * 2 ^ k = d * f + r"
    unfolding assms(5,6) k_def by simp
  then have "(of_int (n * 2 ^ k) :: rat) = of_int d * of_int f + of_int r"
    by (metis of_int_add of_int_mult)
  then have dq: "(of_int (n * 2 ^ k) :: rat) / of_int d - of_int f = of_int r / of_int d"
    using dp by (simp add: field_simps)
  have c1: "((of_int r :: rat) / of_int d < 1 / 2) = (2 * r < d)"
  proof -
    have "((of_int r :: rat) / of_int d < 1 / 2) = ((of_int (2 * r) :: rat) < of_int d)"
      using dp by (simp add: field_simps)
    then show ?thesis by (simp only: of_int_less_iff)
  qed
  have c2: "(1 / 2 < (of_int r :: rat) / of_int d) = (d < 2 * r)"
  proof -
    have "(1 / 2 < (of_int r :: rat) / of_int d) = ((of_int d :: rat) < of_int (2 * r))"
      using dp by (simp add: field_simps)
    then show ?thesis by (simp only: of_int_less_iff)
  qed
  have rh: "round_half_even (of_int (n * 2 ^ k) / of_int d) =
      (if 2 * r < d then f else if d < 2 * r then f + 1 else if even f then f else f + 1)"
    by (simp only: round_half_even_def Let_def fq dq c1 c2)
  have "round_double x = of_int (round_half_even (x / (1 / 2 ^ k))) * (1 / 2 ^ k)"
    using xn by (simp only: round_double_def Let_def u if_False)
  then show ?thesis
    unfolding q rh by (simp add: x_def k_def)
qed

lemma ilog2_eq: "2 ^ e \<le> n \<Longrightarrow> n < 2 ^ Suc e \<Longrightarrow> ilog2 n = e"
proof (induction e arbitrary: n)
  case 0
  then show ?case by (simp add: ilog2.simps)
next
  case (Suc e)
  from Suc.prems have "2 ^ e \<le> n div 2" "n div 2 < 2 ^ Suc e" by simp_all
  from Suc.IH [OF this] have "ilog2 (n div 2) = e" .
  moreover have "(1::nat) \<le> 2 ^ e" by simp
  then have "(2::nat) \<le> 2 ^ Suc e" by simp
  with Suc.prems(1) have "\<not> n < 2" by linarith
  ultimately show ?case by (subst ilog2.simps) simp
qed

lemma long_round:
  "round_double (77760000003599999999 / 1000000) = 77760000003600"
proof -
  have dv: "(77760000003599999999::int) div 1000000 = 77760000003599" by simp
  have e: "ilog2 77760000003599 = 46"
    by (rule ilog2_eq) simp_all
  have "round_double (of_int 77760000003599999999 / of_int 1000000) =
     of_int (if 2 * 999936 < (1000000::int) then 4976640000230399
             else if (1000000::int) < 2 * 999936 then 4976640000230399 + 1
             else if even (4976640000230399::int) then 4976640000230399
             else 4976640000230399 + 1) / 2 ^ (52 - 46)"
    by (rule round_double_quotient) (simp_all add: dv e)
  then show ?thesis by simp
qed

section \<open>Hours and minutes of a duration\<close>

lemma total_seconds_whole:
  assumes "\<bar>s\<bar> < 2 ^ 53"
  shows "total_seconds (timedelta_of_seconds s) = of_int s"
proof -
  have "s div 86400 * 86400 + s mod 86400 = s" by simp
  then have "total_seconds (timedelta_of_seconds s) = round_double (of_int s)"
    by (simp add: total_seconds_def timedelta_of_seconds_def)
  with round_double_of_int [OF assms] show ?thesis by simp
qed

lemma py_int_whole: "py_int (of_int a) = a"
  by (simp add: py_int_def)

lemma make_duration_str_whole:
  assumes "\<bar>s\<bar> < 2 ^ 53"
  shows "make_duration_str (of_int s) =
     str_int (s div 3600) @ ''h '' @ str_int (s mod 3600 div 60) @ ''m''"
proof -
  have h: "floordiv (of_int s) 3600 = of_int (s div 3600)"
    using floordiv_whole [OF _ assms, of 3600] by simp
  have m: "pymod (of_int s) 3600 = of_int (s mod 3600)"
    using pymod_whole [of 3600 s] by simp
  have "\<bar>s mod 3600\<bar> < 2 ^ 53" by simp
  from floordiv_whole [OF _ this, of 60]
  have m': "floordiv (of_int (s mod 3600)) 60 = of_int (s mod 3600 div 60)"
    by simp
  show ?thesis
    by (simp only: make_duration_str_def Let_def h m m' py_int_whole)
qed

lemma make_duration_str_nonneg:
  assumes "0 \<le> x" and "x < 2 ^ 53"
  shows "make_duration_str x =
     str_int (\<lfloor>x\<rfloor> div 3600) @ ''h '' @ str_int (\<lfloor>x\<rfloor> mod 3600 div 60) @ ''m''"
  by (simp only: make_duration_str_def Let_def hours_minutes_nonneg [OF assms])

lemma total_seconds_floor:
  assumes "0 \<le> days td * 86400 + seconds td" and "days td * 86400 + seconds td < 2 ^ 33"
    and "0 \<le> microseconds td" and "microseconds td < 1000000"
  shows "0 \<le> total_seconds td" and "total_seconds td < 2 ^ 53"
    and "\<lfloor>total_seconds td\<rfloor> = days td * 86400 + seconds td"
proof -
  define W where "W = days td * 86400 + seconds td"
  have ts: "total_seconds td = round_double (of_int (W * 1000000 + microseconds td) / 1000000)"
    by (simp add: total_seconds_def W_def)
  from seconds_float_floor [of W "microseconds td"] assms have
    lo: "of_int W \<le> total_seconds td" and hi: "total_seconds td < of_int W + 1"
    unfolding ts W_def by simp_all
  from assms(1) have "(0::rat) \<le> of_int W" by (simp add: W_def)
  with lo show "0 \<le> total_seconds td" by simp
  from assms(2) have "W + 1 \<le> 2 ^ 53" by (simp add: W_def)
  then have "(of_int (W + 1) :: rat) \<le> of_int (2 ^ 53)" by (simp only: of_int_le_iff)
  with hi show "total_seconds td < 2 ^ 53" by simp
  from lo hi show "\<lfloor>total_seconds td\<rfloor> = days td * 86400 + seconds td"
    unfolding W_def [symmetric] by (simp add: floor_unique)
qed

lemma total_seconds_long: "total_seconds long_duration = 77760000003600"
  by (simp add: total_seconds_def long_duration_def long_round)

section \<open>The ranking loop\<close>

lemma format_ranking_row_ok:
  assumes "d ''total_duration'' = Some (PTimedelta td)" and "d ''course_count'' = Some c"
    and "d ''user_id'' = Some u" and "d ''nickname'' = Some n"
  shows "format_ranking_row i d =
     Inr \<lparr>row_index = i, rank = str_nat (i + 1), rank_class = rank_class_of (i + 1),
          avatar_url = make_avatar_url u, nickname = n,
          duration_str = make_duration_str (total_seconds td),
          count_str = py_format c @ JIE\<rparr>"
  using assms by (simp add: format_ranking_row_def getitem_def)

lemma ranking_entry_okE:
  assumes "ranking_entry_ok d"
  obtains td c u n where "d ''total_duration'' = Some (PTimedelta td)"
    and "d ''course_count'' = Some c" and "d ''user_id'' = Some u" and "d ''nickname'' = Some n"
  using assms
  by (auto simp: ranking_entry_ok_def has_key_def split: option.splits pyval.splits)

lemma format_ranking_row_Inr_ok:
  assumes "format_ranking_row i d = Inr row"
  shows "ranking_entry_ok d"
proof -
  from assms obtain dur where d1: "d ''total_duration'' = Some dur"
    by (auto simp: format_ranking_row_def getitem_def split: option.splits)
  from assms d1 obtain td where d2: "dur = PTimedelta td"
    by (cases dur) (auto simp: format_ranking_row_def getitem_def)
  from assms d1 d2 show ?thesis
    by (auto simp: format_ranking_row_def getitem_def ranking_entry_ok_def has_key_def
        split: option.splits)
qed

lemma format_ranking_from_nth:
  "format_ranking_from i rd = Inr rows \<Longrightarrow>
   length rows = length rd \<and>
   (\<forall>k<length rd. format_ranking_row (i + k) (rd ! k) = Inr (rows ! k))"
proof (induction rd arbitrary: i rows)
  case Nil
  then show ?case by simp
next
  case (Cons d rd)
  from Cons.prems obtain row rest where
    r: "format_ranking_row i d = Inr row" and
    t: "format_ranking_from (i + 1) rd = Inr rest" and
    e: "rows = row # rest"
    by (auto split: sum.splits)
  from Cons.IH [OF t] have
    l: "length rest = length rd" and
    n: "\<And>k. k < length rd \<Longrightarrow> format_ranking_row (i + 1 + k) (rd ! k) = Inr (rest ! k)"
    by auto
  show ?case
  proof (intro conjI allI impI)
    show "length rows = length (d # rd)" using e l by simp
  next
    fix k assume "k < length (d # rd)"
    then show "format_ranking_row (i + k) ((d # rd) ! k) = Inr (rows ! k)"
      using r n e by (cases k) auto
  qed
qed

lemma format_ranking_row_Inl:
  "format_ranking_row i d = Inl e \<Longrightarrow> is_Exception e"
proof -
  assume a: "format_ranking_row i d = Inl e"
  have g: "getitem d k = Inl x \<Longrightarrow> is_Exception x" for k x
    by (auto simp: getitem_def split: option.splits)
  have c: "call_total_seconds v = Inl x \<Longrightarrow> is_Exception x" for v x
    by (cases v) auto
  from a show ?thesis
    by (auto simp: format_ranking_row_def Let_def split: sum.splits dest: g c)
qed

lemma format_ranking_from_Inl:
  "\<not> list_all ranking_entry_ok rd \<Longrightarrow>
   \<exists>e. format_ranking_from i rd = Inl e \<and> is_Exception e"
proof (induction rd arbitrary: i)
  case Nil
  then show ?case by simp
next
  case (Cons d rd)
  show ?case
  proof (cases "format_ranking_row i d")
    case (Inl e)
    with format_ranking_row_Inl [OF Inl] show ?thesis by simp
  next
    case (Inr row)
    then have "ranking_entry_ok d" by (rule format_ranking_row_Inr_ok)
    with Cons.prems have "\<not> list_all ranking_entry_ok rd" by simp
    from Cons.IH [OF this] obtain e where
      "format_ranking_from (i + 1) rd = Inl e" "is_Exception e" by blast
    with Inr show ?thesis by simp
  qed
qed

lemma format_ranking_from_ok:
  "list_all ranking_entry_ok rd \<Longrightarrow>
   \<exists>rows. format_ranking_from i rd = Inr rows \<and>
     map row_index rows = [i..<i + length rd] \<and>
     map rank rows = map str_nat [Suc i..<Suc (i + length rd)] \<and>
     map rank_class rows = map rank_class_of [Suc i..<Suc (i + length rd)] \<and>
     map (\<lambda>r. Some (nickname r)) rows = map (\<lambda>d. d ''nickname'') rd"
proof (induction rd arbitrary: i)
  case Nil
  then show ?case by simp
next
  case (Cons d rd)
  from Cons.prems have ok: "ranking_entry_ok d" and oks: "list_all ranking_entry_ok rd"
    by simp_all
  from ok obtain td c u n where
    k: "d ''total_duration'' = Some (PTimedelta td)" "d ''course_count'' = Some c"
       "d ''user_id'' = Some u" "d ''nickname'' = Some n"
    by (rule ranking_entry_okE)
  note row = format_ranking_row_ok [OF k, of i]
  from Cons.IH [OF oks, of "i + 1"] obtain rest where
    t: "format_ranking_from (i + 1) rd = Inr rest" and
    p: "map row_index rest = [i + 1..<i + 1 + length rd]"
       "map rank rest = map str_nat [Suc (i + 1)..<Suc (i + 1 + length rd)]"
       "map rank_class rest = map rank_class_of [Suc (i + 1)..<Suc (i + 1 + length rd)]"
       "map (\<lambda>r. Some (nickname r)) rest = map (\<lambda>d. d ''nickname'') rd"
    by blast
  have u1: "[i..<i + length (d # rd)] = i # [i + 1..<i + 1 + length rd]"
    by (simp add: upt_conv_Cons del: upt_Suc)
  have u2: "[Suc i..<Suc (i + length (d # rd))] = Suc i # [Suc (i + 1)..<Suc (i + 1 + length rd)]"
    by (simp add: upt_conv_Cons del: upt_Suc)
  show ?case
    unfolding u1 u2 using row t p k by (simp del: upt_Suc)
qed

section \<open>Ranks and rank classes\<close>

lemma ranking_request_Inr:
  "ranking_request g rd sd ed = Inr rq \<Longrightarrow>
   format_ranking_from 0 rd = Inr (ranking_data (templates rq))"
  by (auto simp: ranking_request_def Let_def split: sum.splits)

lemma ranking_request_rows:
  "format_ranking_from 0 rd = Inr rows \<Longrightarrow>
   \<exists>rq. ranking_request g rd sd ed = Inr rq \<and> ranking_data (templates rq) = rows"
  by (simp add: ranking_request_def Let_def)

lemma rank_class_of_values:
  "rank_class_of 1 = ''first''" "rank_class_of 2 = ''second''" "rank_class_of 3 = ''third''"
  "rank_class_of (n + 4) = ''other''"
  by (simp_all add: rank_class_of_def)

text \<open>
  Claim C1. For a list of \<open>N\<close> ranking entries (\<open>N \<ge> 0\<close>), each with its four
  fields, the ranking operation builds its request, and the rows it passes to the
  template are \<open>N\<close> rows in the order of the input (row \<open>k\<close> carries index \<open>k\<close> and
  the nickname of entry \<open>k\<close>: nothing is sorted) with ranks \<open>1..N\<close>, each printed
  by \<^verbatim>\<open>str\<close>, and rank classes \<^verbatim>\<open>first\<close>, \<^verbatim>\<open>second\<close>, \<^verbatim>\<open>third\<close> for
  the ranks 1, 2, 3 and \<^verbatim>\<open>other\<close> for every rank from 4 on.
\<close>

theorem ranking_ranks_in_input_order:
  assumes "list_all ranking_entry_ok rd"
  shows "\<exists>rq. ranking_request g rd start_date end_date = Inr rq \<and>
     length (ranking_data (templates rq)) = length rd \<and>
     map row_index (ranking_data (templates rq)) = [0..<length rd] \<and>
     map rank (ranking_data (templates rq)) = map str_nat [1..<Suc (length rd)] \<and>
     map rank_class (ranking_data (templates rq)) = map rank_class_of [1..<Suc (length rd)] \<and>
     map (\<lambda>r. Some (nickname r)) (ranking_data (templates rq)) = map (\<lambda>d. d ''nickname'') rd \<and>
     rank_class_of 1 = ''first'' \<and> rank_class_of 2 = ''second'' \<and>
     rank_class_of 3 = ''third'' \<and> rank_class_of (n + 4) = ''other''"
proof -
  from format_ranking_from_ok [OF assms, of 0] obtain rows where
    f: "format_ranking_from 0 rd = Inr rows" and
    p: "map row_index rows = [0..<length rd]"
       "map rank rows = map str_nat [1..<Suc (length rd)]"
       "map rank_class rows = map rank_class_of [1..<Suc (length rd)]"
       "map (\<lambda>r. Some (nickname r)) rows = map (\<lambda>d. d ''nickname'') rd"
    by (auto simp del: upt_Suc)
  from format_ranking_from_nth [OF f] have l: "length rows = length rd" by simp
  from ranking_request_rows [OF f, of g start_date end_date] obtain rq where
    rq: "ranking_request g rd start_date end_date = Inr rq" "ranking_data (templates rq) = rows"
    by blast
  show ?thesis
    using rq p l rank_class_of_values by (intro exI [of _ rq]) (simp del: upt_Suc)
qed

lemma sample_ranking_ok: "list_all ranking_entry_ok sample_ranking"
  by (simp add: sample_ranking_def sample_entry_def ranking_entry_ok_def has_key_def)

text \<open>The sample ranking of four entries: ranks 1 to 4, the fourth of class \<^verbatim>\<open>other\<close>.\<close>

theorem ranking_ranks_in_input_order_witness:
  "list_all ranking_entry_ok sample_ranking \<and>
   (\<exists>rq. ranking_request sample_generator sample_ranking sample_date sample_date = Inr rq \<and>
      map row_index (ranking_data (templates rq)) = [0, 1, 2, 3] \<and>
      map rank (ranking_data (templates rq)) = [''1'', ''2'', ''3'', ''4''] \<and>
      map rank_class (ranking_data (templates rq)) = [''first'', ''second'', ''third'', ''other''] \<and>
      map nickname (ranking_data (templates rq)) =
        [PStr ''alice'', PStr ''bob'', PStr ''carol'', PStr ''dave''])"
proof -
  have h: "list_all ranking_entry_ok sample_ranking"
    by (rule sample_ranking_ok)
  have len: "length sample_ranking = 4"
    by (simp add: sample_ranking_def)
  have u0: "[0..<4] = [0, 1, 2, 3::nat]" and u1: "[1..<Suc 4] = [1, 2, 3, 4::nat]"
    by (simp_all add: upt_conv_Cons del: upt_Suc)
  have names: "map (\<lambda>d. d ''nickname'') sample_ranking =
      [Some (PStr ''alice''), Some (PStr ''bob''), Some (PStr ''carol''), Some (PStr ''dave'')]"
    by (simp add: sample_ranking_def sample_entry_def)
  from ranking_ranks_in_input_order [OF h, of sample_generator sample_date sample_date 0]
  obtain rq where
    rq: "ranking_request sample_generator sample_ranking sample_date sample_date = Inr rq" and
    p: "map row_index (ranking_data (templates rq)) = [0..<length sample_ranking]"
       "map rank (ranking_data (templates rq)) = map str_nat [1..<Suc (length sample_ranking)]"
       "map rank_class (ranking_data (templates rq)) =
          map rank_class_of [1..<Suc (length sample_ranking)]"
       "map (\<lambda>r. Some (nickname r)) (ranking_data (templates rq)) =
          map (\<lambda>d. d ''nickname'') sample_ranking"
    by blast
  have a: "map row_index (ranking_data (templates rq)) = [0, 1, 2, 3]"
    using p(1) by (simp only: len u0)
  have b: "map rank (ranking_data (templates rq)) = [''1'', ''2'', ''3'', ''4'']"
  proof -
    from p(2) have "map rank (ranking_data (templates rq)) = map str_nat [1, 2, 3, 4]"
      by (simp only: len u1)
    then show ?thesis by (simp add: str_nat.simps digit_char_def)
  qed
  have c: "map rank_class (ranking_data (templates rq)) =
      [''first'', ''second'', ''third'', ''other'']"
  proof -
    from p(3) have "map rank_class (ranking_data (templates rq)) = map rank_class_of [1, 2, 3, 4]"
      by (simp only: len u1)
    then show ?thesis by (simp add: rank_class_of_def)
  qed
  have "map (the \<circ> (\<lambda>r. Some (nickname r))) (ranking_data (templates rq)) =
      map the (map (\<lambda>d. d ''nickname'') sample_ranking)"
    using p(4) by (simp only: map_map [symmetric])
  then have d: "map nickname (ranking_data (templates rq)) =
      [PStr ''alice'', PStr ''bob'', PStr ''carol'', PStr ''dave'']"
    by (simp add: names comp_def)
  show ?thesis
    by (intro conjI exI [of _ rq]) (rule h rq a b c d)+
qed

section \<open>Durations and avatar URLs\<close>

lemma ranking_request_nth:
  assumes "ranking_request g rd sd ed = Inr rq" and "k < length rd"
  shows "format_ranking_row k (rd ! k) = Inr (ranking_data (templates rq) ! k)"
  using format_ranking_from_nth [OF ranking_request_Inr [OF assms(1)]] assms(2) by simp

lemma format_ranking_row_fields:
  assumes "format_ranking_row i d = Inr row"
  obtains td c u n where "d ''total_duration'' = Some (PTimedelta td)"
    and "d ''course_count'' = Some c" and "d ''user_id'' = Some u" and "d ''nickname'' = Some n"
    and "row = \<lparr>row_index = i, rank = str_nat (i + 1), rank_class = rank_class_of (i + 1),
          avatar_url = make_avatar_url u, nickname = n,
          duration_str = make_duration_str (total_seconds td),
          count_str = py_format c @ JIE\<rparr>"
proof -
  from assms have "ranking_entry_ok d" by (rule format_ranking_row_Inr_ok)
  then obtain td c u n where
    f: "d ''total_duration'' = Some (PTimedelta td)" "d ''course_count'' = Some c"
       "d ''user_id'' = Some u" "d ''nickname'' = Some n"
    by (rule ranking_entry_okE)
  from format_ranking_row_ok [OF f, of i] assms have
    "row = \<lparr>row_index = i, rank = str_nat (i + 1), rank_class = rank_class_of (i + 1),
          avatar_url = make_avatar_url u, nickname = n,
          duration_str = make_duration_str (total_seconds td),
          count_str = py_format c @ JIE\<rparr>"
    by simp
  with f that show ?thesis by blast
qed

lemma sample_ranking_request:
  "\<exists>rq. ranking_request sample_generator sample_ranking sample_date sample_date = Inr rq"
proof -
  from format_ranking_from_ok [OF sample_ranking_ok, of 0] obtain rows where
    "format_ranking_from 0 sample_ranking = Inr rows" by blast
  from ranking_request_rows [OF this] show ?thesis by blast
qed

text \<open>
  Claim C4, as the code has it. The row of an entry shows \<^verbatim>\<open>"{H}h {M}m"\<close> with
  \<open>H = W div 3600\<close> and \<open>M = (W mod 3600) div 60\<close>, where \<open>W\<close> is the number of
  whole seconds of the duration: hours and minutes are truncated, never rounded up,
  and the seconds and microseconds left over are dropped. This holds for every duration
  without a microsecond part, of either sign (every \<^verbatim>\<open>timedelta\<close> has fewer than
  \<open>2\<^sup>5\<^sup>3\<close> seconds), and for every non-negative duration below \<open>2\<^sup>3\<^sup>3\<close> seconds
  (272 years) with any microsecond part. 3661 seconds give \<^verbatim>\<open>"1h 1m"\<close>. The
  hours and minutes are computed from the float \<^verbatim>\<open>total_seconds()\<close>, which for a
  longer duration with microseconds can be the next whole second.
\<close>

theorem ranking_duration_truncated:
  assumes "ranking_request g rd start_date end_date = Inr rq" and "k < length rd"
    and "(rd ! k) ''total_duration'' = Some (PTimedelta td)"
    and "0 \<le> microseconds td" and "microseconds td < 1000000"
    and "W = days td * 86400 + seconds td"
    and "(microseconds td = 0 \<and> \<bar>W\<bar> < 2 ^ 53) \<or> (0 \<le> W \<and> W < 2 ^ 33)"
  shows "duration_str (ranking_data (templates rq) ! k) =
           str_int (W div 3600) @ ''h '' @ str_int (W mod 3600 div 60) @ ''m'' \<and>
         (W div 3600) * 3600 + (W mod 3600 div 60) * 60 \<le> W \<and>
         W < (W div 3600) * 3600 + (W mod 3600 div 60) * 60 + 60 \<and>
         make_duration_str (total_seconds (timedelta_of_seconds 3661)) = ''1h 1m''"
proof -
  from ranking_request_nth [OF assms(1,2)] have
    row: "format_ranking_row k (rd ! k) = Inr (ranking_data (templates rq) ! k)" .
  then obtain td' c u n where
    f: "(rd ! k) ''total_duration'' = Some (PTimedelta td')" and
    r: "ranking_data (templates rq) ! k =
         \<lparr>row_index = k, rank = str_nat (k + 1), rank_class = rank_class_of (k + 1),
          avatar_url = make_avatar_url u, nickname = n,
          duration_str = make_duration_str (total_seconds td'),
          count_str = py_format c @ JIE\<rparr>"
    by (rule format_ranking_row_fields)
  from f assms(3) have td: "td' = td" by simp
  have ds: "duration_str (ranking_data (templates rq) ! k) = make_duration_str (total_seconds td)"
    by (simp add: r td)
  have ms: "make_duration_str (total_seconds td) =
      str_int (W div 3600) @ ''h '' @ str_int (W mod 3600 div 60) @ ''m''"
  proof (cases "microseconds td = 0 \<and> \<bar>W\<bar> < 2 ^ 53")
    case True
    then have mz: "microseconds td = 0" and wb: "\<bar>W\<bar> < 2 ^ 53" by simp_all
    have q: "(of_int (W * 1000000 + 0) :: rat) / 1000000 = of_int W" by simp
    have "total_seconds td = round_double (of_int (W * 1000000 + 0) / 1000000)"
      by (simp only: total_seconds_def mz assms(6))
    also have "\<dots> = of_int W"
      unfolding q by (rule round_double_of_int [OF wb])
    finally show ?thesis
      by (simp only: make_duration_str_whole [OF wb])
  next
    case False
    with assms(7) have w: "0 \<le> W" "W < 2 ^ 33" by auto
    from total_seconds_floor [of td] w assms(4,5) have
      "0 \<le> total_seconds td" "total_seconds td < 2 ^ 53" "\<lfloor>total_seconds td\<rfloor> = W"
      unfolding assms(6) by simp_all
    then show ?thesis
      by (simp only: make_duration_str_nonneg)
  qed
  have b: "(W div 3600) * 3600 + (W mod 3600 div 60) * 60 \<le> W"
    and c: "W < (W div 3600) * 3600 + (W mod 3600 div 60) * 60 + 60"
    by presburger+
  have "\<bar>3661 :: int\<bar> < 2 ^ 53" by simp
  then have "make_duration_str (total_seconds (timedelta_of_seconds 3661)) =
      str_int (3661 div 3600) @ ''h '' @ str_int (3661 mod 3600 div 60) @ ''m''"
    by (simp only: total_seconds_whole make_duration_str_whole)
  then have d: "make_duration_str (total_seconds (timedelta_of_seconds 3661)) = ''1h 1m''"
    by (simp add: str_int_def str_nat.simps digit_char_def)
  from ds ms b c d show ?thesis by (simp only: simp_thms)
qed

text \<open>
  The sample ranking: 3661 seconds and 59 seconds; an entry of one hour, thirty
  minutes, 59 seconds and 999999 microseconds; and an entry of minus one second.
\<close>

theorem ranking_duration_truncated_witness:
  "(\<exists>rq. ranking_request sample_generator sample_ranking sample_date sample_date = Inr rq \<and>
      duration_str (ranking_data (templates rq) ! 0) = ''1h 1m'' \<and>
      duration_str (ranking_data (templates rq) ! 2) = ''0h 0m'') \<and>
   (\<exists>rq. ranking_request sample_generator fraction_ranking sample_date sample_date = Inr rq \<and>
      duration_str (ranking_data (templates rq) ! 0) = ''1h 30m'') \<and>
   (\<exists>rq. ranking_request sample_generator negative_ranking sample_date sample_date = Inr rq \<and>
      duration_str (ranking_data (templates rq) ! 0) = ''-1h 59m'')"
proof -
  from sample_ranking_request obtain rq where
    rq: "ranking_request sample_generator sample_ranking sample_date sample_date = Inr rq"
    by blast
  have k0: "0 < length sample_ranking" and k2: "2 < length sample_ranking"
    by (simp_all add: sample_ranking_def)
  have d0: "(sample_ranking ! 0) ''total_duration'' =
      Some (PTimedelta \<lparr>days = 0, seconds = 3661, microseconds = 0\<rparr>)"
    by (simp add: sample_ranking_def sample_entry_def timedelta_of_seconds_def)
  have d2: "(sample_ranking ! 2) ''total_duration'' =
      Some (PTimedelta \<lparr>days = 0, seconds = 59, microseconds = 0\<rparr>)"
    by (simp add: sample_ranking_def sample_entry_def timedelta_of_seconds_def)
  have a: "duration_str (ranking_data (templates rq) ! 0) = ''1h 1m''"
    using ranking_duration_truncated [OF rq k0 d0, of 3661]
    by (simp add: str_int_def str_nat.simps digit_char_def)
  have b: "duration_str (ranking_data (templates rq) ! 2) = ''0h 0m''"
    using ranking_duration_truncated [OF rq k2 d2, of 59]
    by (simp add: str_int_def str_nat.simps digit_char_def)
  have ok: "list_all ranking_entry_ok fraction_ranking"
    by (simp add: fraction_ranking_def ranking_entry_ok_def has_key_def)
  from format_ranking_from_ok [OF ok, of 0] obtain rows where
    "format_ranking_from 0 fraction_ranking = Inr rows" by blast
  from ranking_request_rows [OF this, of sample_generator sample_date sample_date]
  obtain rq' where
    rq': "ranking_request sample_generator fraction_ranking sample_date sample_date = Inr rq'"
    by blast
  have kf: "0 < length fraction_ranking"
    by (simp add: fraction_ranking_def)
  have df: "(fraction_ranking ! 0) ''total_duration'' =
      Some (PTimedelta \<lparr>days = 0, seconds = 5459, microseconds = 999999\<rparr>)"
    by (simp add: fraction_ranking_def)
  have c: "duration_str (ranking_data (templates rq') ! 0) = ''1h 30m''"
    using ranking_duration_truncated [OF rq' kf df, of 5459]
    by (simp add: str_int_def str_nat.simps digit_char_def)
  have l: "\<exists>rq. ranking_request sample_generator sample_ranking sample_date sample_date = Inr rq \<and>
      duration_str (ranking_data (templates rq) ! 0) = ''1h 1m'' \<and>
      duration_str (ranking_data (templates rq) ! 2) = ''0h 0m''"
    by (intro exI [of _ rq] conjI) (rule rq a b)+
  have r: "\<exists>rq. ranking_request sample_generator fraction_ranking sample_date sample_date = Inr rq \<and>
      duration_str (ranking_data (templates rq) ! 0) = ''1h 30m''"
    by (intro exI [of _ rq'] conjI) (rule rq' c)+
  have okn: "list_all ranking_entry_ok negative_ranking"
    by (simp add: negative_ranking_def sample_entry_def ranking_entry_ok_def has_key_def)
  from format_ranking_from_ok [OF okn, of 0] obtain rowsn where
    "format_ranking_from 0 negative_ranking = Inr rowsn" by blast
  from ranking_request_rows [OF this, of sample_generator sample_date sample_date]
  obtain rqn where
    rqn: "ranking_request sample_generator negative_ranking sample_date sample_date = Inr rqn"
    by blast
  have kn: "0 < length negative_ranking"
    by (simp add: negative_ranking_def)
  have dn: "(negative_ranking ! 0) ''total_duration'' =
      Some (PTimedelta \<lparr>days = - 1, seconds = 86399, microseconds = 0\<rparr>)"
    by (simp add: negative_ranking_def sample_entry_def timedelta_of_seconds_def)
  have e: "duration_str (ranking_data (templates rqn) ! 0) = ''-1h 59m''"
    using ranking_duration_truncated [OF rqn kn dn, of "- 1"]
    by (simp add: str_int_def str_nat.simps digit_char_def)
  have s: "\<exists>rq. ranking_request sample_generator negative_ranking sample_date sample_date = Inr rq \<and>
      duration_str (ranking_data (templates rq) ! 0) = ''-1h 59m''"
    by (intro exI [of _ rqn] conjI) (rule rqn e)+
  show ?thesis by (rule conjI [OF l conjI [OF r s]])
qed

text \<open>
  The claim as it was stated fails for a long duration with microseconds: 900000000
  days, 3599 seconds and 999999 microseconds are 77760000003599 whole seconds, whose
  truncation is 21600000000 hours and 59 minutes. \<^verbatim>\<open>total_seconds()\<close> returns the
  float 77760000003600.0, and the row shows 21600000001 hours and 0 minutes, which is
  more than the duration.
\<close>

theorem ranking_duration_rounds_up:
  "ranking_request sample_generator long_ranking sample_date sample_date =
     Inr \<lparr>rq_template_path = ''/plugin/templates'', template_name = ''ranking.html'',
          templates = RankingData ''2024/01/01 - 2024/01/01''
            [\<lparr>row_index = 0, rank = ''1'', rank_class = ''first'',
              avatar_url = ''https://q1.qlogo.cn/g?b=qq&nk=123456&s=100'',
              nickname = PStr ''alice'', duration_str = ''21600000001h 0m'',
              count_str = ''2'' @ JIE\<rparr>],
          max_width = 1200, device_height = 800\<rparr> \<and>
   (long_ranking ! 0) ''total_duration'' =
     Some (PTimedelta \<lparr>days = 900000000, seconds = 3599, microseconds = 999999\<rparr>) \<and>
   (900000000 * 86400 + 3599 :: int) = 77760000003599 \<and>
   str_int (77760000003599 div 3600) @ ''h '' @ str_int (77760000003599 mod 3600 div 60) @ ''m''
     = ''21600000000h 59m'' \<and>
   ((900000000 * 86400 + 3599) * 1000000 + 999999 :: int) < 21600000001 * 3600 * 1000000"
proof -
  have "\<bar>77760000003600 :: int\<bar> < 2 ^ 53" by simp
  from make_duration_str_whole [OF this]
  have "make_duration_str (of_int 77760000003600) =
      str_int (77760000003600 div 3600) @ ''h '' @ str_int (77760000003600 mod 3600 div 60) @ ''m''" .
  then have m: "make_duration_str (total_seconds long_duration) = ''21600000001h 0m''"
    unfolding total_seconds_long by (simp add: str_int_def str_nat.simps digit_char_def)
  have dr: "date_strftime sample_date ''%Y/%m/%d'' = ''2024/01/01''"
    by (simp add: date_strftime_def sample_date_def strftime_directive_def zero_pad_def
        str_nat.simps digit_char_def)
  have row: "format_ranking_row 0 (long_ranking ! 0) =
      Inr \<lparr>row_index = 0, rank = ''1'', rank_class = ''first'',
              avatar_url = ''https://q1.qlogo.cn/g?b=qq&nk=123456&s=100'',
              nickname = PStr ''alice'', duration_str = ''21600000001h 0m'',
              count_str = ''2'' @ JIE\<rparr>"
    using m
    by (simp add: long_ranking_def format_ranking_row_def getitem_def rank_class_of_def
        make_avatar_url_def str_int_def str_nat.simps digit_char_def)
  have a: "ranking_request sample_generator long_ranking sample_date sample_date =
     Inr \<lparr>rq_template_path = ''/plugin/templates'', template_name = ''ranking.html'',
          templates = RankingData ''2024/01/01 - 2024/01/01''
            [\<lparr>row_index = 0, rank = ''1'', rank_class = ''first'',
              avatar_url = ''https://q1.qlogo.cn/g?b=qq&nk=123456&s=100'',
              nickname = PStr ''alice'', duration_str = ''21600000001h 0m'',
              count_str = ''2'' @ JIE\<rparr>],
          max_width = 1200, device_height = 800\<rparr>"
    using row
    by (simp add: ranking_request_def Let_def dr long_ranking_def sample_generator_def)
  have b: "(long_ranking ! 0) ''total_duration'' =
     Some (PTimedelta \<lparr>days = 900000000, seconds = 3599, microseconds = 999999\<rparr>)"
    by (simp add: long_ranking_def long_duration_def)
  have c: "str_int (77760000003599 div 3600) @ ''h '' @
      str_int (77760000003599 mod 3600 div 60) @ ''m'' = ''21600000000h 59m''"
    by (simp add: str_int_def str_nat.simps digit_char_def)
  have d: "(900000000 * 86400 + 3599 :: int) = 77760000003599"
    and e: "((900000000 * 86400 + 3599) * 1000000 + 999999 :: int) < 21600000001 * 3600 * 1000000"
    by simp_all
  show ?thesis
    by (intro conjI) (rule a b c d e)+
qed

text \<open>
  Claim C6. The avatar URL of a row is built from the entry's \<^verbatim>\<open>user_id\<close> by
  string concatenation alone: for an integer \<open>u\<close> it is
  \<^verbatim>\<open>https://q1.qlogo.cn/g?b=qq&nk=\<close>, the decimal digits of \<open>u\<close>, \<^verbatim>\<open>&s=100\<close>; the
  world is not consulted. The user id 123456 gives
  \<^verbatim>\<open>https://q1.qlogo.cn/g?b=qq&nk=123456&s=100\<close>.
\<close>

theorem ranking_avatar_url:
  assumes "ranking_request g rd start_date end_date = Inr rq" and "k < length rd"
    and "(rd ! k) ''user_id'' = Some (PInt u)"
  shows "avatar_url (ranking_data (templates rq) ! k) =
           ''https://q1.qlogo.cn/g?b=qq&nk='' @ str_int u @ ''&s=100'' \<and>
         make_avatar_url (PInt 123456) = ''https://q1.qlogo.cn/g?b=qq&nk=123456&s=100''"
proof -
  from ranking_request_nth [OF assms(1,2)] have
    row: "format_ranking_row k (rd ! k) = Inr (ranking_data (templates rq) ! k)" .
  then obtain td c u' n where
    f: "(rd ! k) ''user_id'' = Some u'" and
    r: "ranking_data (templates rq) ! k =
         \<lparr>row_index = k, rank = str_nat (k + 1), rank_class = rank_class_of (k + 1),
          avatar_url = make_avatar_url u', nickname = n,
          duration_str = make_duration_str (total_seconds td),
          count_str = py_format c @ JIE\<rparr>"
    by (rule format_ranking_row_fields)
  from f assms(3) have u: "u' = PInt u" by simp
  have "avatar_url (ranking_data (templates rq) ! k) = make_avatar_url u'"
    by (simp add: r)
  then have a: "avatar_url (ranking_data (templates rq) ! k) =
      ''https://q1.qlogo.cn/g?b=qq&nk='' @ str_int u @ ''&s=100''"
    by (simp add: u make_avatar_url_def)
  have b: "make_avatar_url (PInt 123456) = ''https://q1.qlogo.cn/g?b=qq&nk=123456&s=100''"
    by (simp add: make_avatar_url_def str_int_def str_nat.simps digit_char_def)
  from a b show ?thesis by (intro conjI)
qed

theorem ranking_avatar_url_witness:
  "\<exists>rq. ranking_request sample_generator sample_ranking sample_date sample_date = Inr rq \<and>
     avatar_url (ranking_data (templates rq) ! 0) = ''https://q1.qlogo.cn/g?b=qq&nk=123456&s=100''"
proof -
  from sample_ranking_request obtain rq where
    rq: "ranking_request sample_generator sample_ranking sample_date sample_date = Inr rq"
    by blast
  have k0: "0 < length sample_ranking"
    by (simp add: sample_ranking_def)
  have d0: "(sample_ranking ! 0) ''user_id'' = Some (PInt 123456)"
    by (simp add: sample_ranking_def sample_entry_def)
  have a: "avatar_url (ranking_data (templates rq) ! 0) =
      ''https://q1.qlogo.cn/g?b=qq&nk=123456&s=100''"
    using ranking_avatar_url [OF rq k0 d0]
    by (simp add: str_int_def str_nat.simps digit_char_def)
  show ?thesis
    by (intro exI [of _ rq] conjI) (rule rq a)+
qed

section \<open>Missing fields of a ranking entry\<close>

lemma log_and_reraise_Inl:
  "is_Exception e \<Longrightarrow>
   log_and_reraise prefix (Inl e, w) = (Inl e, w\<lparr>error_log := error_log w @ [prefix @ exn_str e]\<rparr>)"
  by (simp add: log_and_reraise_def logger_error_def)

lemma log_and_reraise_Inr: "log_and_reraise prefix (Inr v, w) = (Inr v, w)"
  by (simp add: log_and_reraise_def)

text \<open>
  Claim C10. The ranking operation requires \<^verbatim>\<open>total_duration\<close>,
  \<^verbatim>\<open>course_count\<close>, \<^verbatim>\<open>user_id\<close> and \<^verbatim>\<open>nickname\<close> of every entry: when
  some entry lacks one of these keys, the call raises an exception, writes one line for
  it to the error log and changes nothing else (no temporary file is created); it
  returns no path, and no placeholder takes the place of the field.
\<close>

theorem ranking_missing_key_raises:
  assumes "k < length rd"
    and "key \<in> set [''total_duration'', ''course_count'', ''user_id'', ''nickname'']"
    and "(rd ! k) key = None"
  shows "\<exists>e. generate_ranking_image ext rd start_date end_date w =
           (Inl e, w\<lparr>error_log := error_log w @ [MSG_RANKING_FAILED @ exn_str e]\<rparr>)"
proof -
  from assms(2,3) have "\<not> ranking_entry_ok (rd ! k)"
    by (auto simp: ranking_entry_ok_def has_key_def)
  with assms(1) have "\<not> list_all ranking_entry_ok rd"
    by (auto simp: list_all_length)
  from format_ranking_from_Inl [OF this, of 0] obtain e where
    "format_ranking_from 0 rd = Inl e" and ex: "is_Exception e" by blast
  then have "ranking_request (self w) rd start_date end_date = Inl e"
    by (simp add: ranking_request_def Let_def)
  with ex have "generate_ranking_image ext rd start_date end_date w =
      (Inl e, w\<lparr>error_log := error_log w @ [MSG_RANKING_FAILED @ exn_str e]\<rparr>)"
    by (simp add: generate_ranking_image_def log_and_reraise_Inl)
  then show ?thesis ..
qed

text \<open>The second sample entry has no nickname: the call fails, whatever the renderer does.\<close>

theorem ranking_missing_key_raises_witness:
  "generate_ranking_image sample_extern broken_ranking sample_date sample_date sample_world =
     (Inl (KeyError ''nickname''),
      sample_world\<lparr>error_log := [MSG_RANKING_FAILED @ exn_str (KeyError ''nickname'')]\<rparr>)"
proof -
  have k: "1 < length broken_ranking"
    by (simp add: broken_ranking_def)
  have m: "''nickname'' \<in> set [''total_duration'', ''course_count'', ''user_id'', ''nickname'']"
    by simp
  have n: "(broken_ranking ! 1) ''nickname'' = None"
    by (simp add: broken_ranking_def)
  from ranking_missing_key_raises [OF k m n, of sample_extern sample_date sample_date sample_world]
  obtain e where
    e: "generate_ranking_image sample_extern broken_ranking sample_date sample_date sample_world =
          (Inl e, sample_world\<lparr>error_log := error_log sample_world @ [MSG_RANKING_FAILED @ exn_str e]\<rparr>)"
    by blast
  have "format_ranking_from 0 broken_ranking = Inl (KeyError ''nickname'')"
    by (simp add: broken_ranking_def sample_entry_def format_ranking_row_def getitem_def)
  then have "fst (generate_ranking_image sample_extern broken_ranking sample_date sample_date
      sample_world) = Inl (KeyError ''nickname'')"
    by (simp add: generate_ranking_image_def ranking_request_def Let_def log_and_reraise_Inl)
  with e have "e = KeyError ''nickname''" by simp
  with e show ?thesis by (simp add: sample_world_def)
qed

section \<open>The personal schedule\<close>

lemma strftime_HM: "strftime t ''%H:%M'' = hhmm t"
  by (simp add: strftime_directive_def hhmm_def)

lemma strftime_md: "strftime t ''%m-%d '' = zero_pad 2 (month t) @ ''-'' @ zero_pad 2 (day t) @ '' ''"
  by (simp add: strftime_directive_def)

lemma make_time_str_missing:
  "missing c ''start_time'' \<or> missing c ''end_time'' \<Longrightarrow> make_time_str c = Inr TIME_UNKNOWN"
  by (auto simp: make_time_str_def missing_def dict_get_def Let_def split: option.splits)

lemma make_time_str_present:
  "c ''start_time'' = Some (PDatetime s) \<Longrightarrow> c ''end_time'' = Some (PDatetime e) \<Longrightarrow>
   make_time_str c = Inr (hhmm s @ '' - '' @ hhmm e)"
  by (simp add: make_time_str_def dict_get_def strftime_HM del: strftime.simps)

lemma make_time_str_typed:
  assumes "course_times_typed c"
  shows "\<exists>ts. make_time_str c = Inr ts"
proof (cases "missing c ''start_time'' \<or> missing c ''end_time''")
  case True
  then show ?thesis by (simp add: make_time_str_missing)
next
  case False
  with assms obtain s e where
    "c ''start_time'' = Some (PDatetime s)" "c ''end_time'' = Some (PDatetime e)"
    by (auto simp: course_times_typed_def optional_datetime_def missing_def
        split: option.splits pyval.splits)
  then show ?thesis by (simp add: make_time_str_present)
qed

lemma format_course_time_str:
  "format_course c = Inr fc \<Longrightarrow> make_time_str c = Inr (time_str fc)"
  by (auto simp: format_course_def Let_def split: sum.splits)

lemma format_course_typed:
  "course_times_typed c \<Longrightarrow> \<exists>fc. format_course c = Inr fc"
  using make_time_str_typed [of c] by (auto simp: format_course_def Let_def)

lemma format_courses_nth:
  "format_courses cs = Inr fcs \<Longrightarrow>
   length fcs = length cs \<and> (\<forall>k<length cs. format_course (cs ! k) = Inr (fcs ! k))"
proof (induction cs arbitrary: fcs)
  case Nil
  then show ?case by simp
next
  case (Cons c cs)
  from Cons.prems obtain fc rest where
    r: "format_course c = Inr fc" and
    t: "format_courses cs = Inr rest" and
    e: "fcs = fc # rest"
    by (auto split: sum.splits)
  from Cons.IH [OF t] have
    l: "length rest = length cs" and
    n: "\<And>k. k < length cs \<Longrightarrow> format_course (cs ! k) = Inr (rest ! k)"
    by auto
  show ?case
  proof (intro conjI allI impI)
    show "length fcs = length (c # cs)" using e l by simp
  next
    fix k assume "k < length (c # cs)"
    then show "format_course ((c # cs) ! k) = Inr (fcs ! k)"
      using r n e by (cases k) auto
  qed
qed

lemma format_courses_typed:
  "list_all course_times_typed cs \<Longrightarrow> \<exists>fcs. format_courses cs = Inr fcs"
proof (induction cs)
  case Nil
  then show ?case by simp
next
  case (Cons c cs)
  then obtain fc fcs where "format_course c = Inr fc" "format_courses cs = Inr fcs"
    using format_course_typed [of c] by auto
  then show ?case by simp
qed

lemma weekday_less_7: "weekday d < 7"
  by (simp add: weekday_def)

lemma length_weeklist: "length weeklist = 7"
  by (simp add: weeklist_def)

lemma make_title_lines_Some:
  "make_title_lines ext nick (Some d) =
     Inr [nick @ DE,
          zero_pad 2 (month d) @ ''-'' @ zero_pad 2 (day d) @ '' '' @ KECHENG_OPEN @
          weeklist ! weekday d @ PAREN_CLOSE]"
  by (simp add: make_title_lines_def list_index_def weekday_less_7 length_weeklist strftime_md
      del: strftime.simps)

lemma make_title_lines_None:
  "make_title_lines ext nick None =
     Inr [nick @ DE, TODAY @ KECHENG_OPEN @ weeklist ! weekday (now ext 8 0) @ PAREN_CLOSE]"
  by (simp add: make_title_lines_def list_index_def weekday_less_7 length_weeklist)

lemma make_title_lines_total: "\<exists>title. make_title_lines ext nick dt = Inr title"
  by (cases dt) (simp_all add: make_title_lines_Some make_title_lines_None)

lemma user_schedule_request_courses:
  assumes "format_courses cs = Inr fcs"
  shows "\<exists>rq. user_schedule_request ext g cs nick dt = Inr rq \<and>
     formatted_courses (templates rq) = fcs \<and>
     make_title_lines ext nick dt = Inr (title_lines (templates rq))"
proof -
  from make_title_lines_total obtain title where
    "make_title_lines ext nick dt = Inr title" by blast
  with assms show ?thesis
    by (simp add: user_schedule_request_def)
qed

lemma user_schedule_request_Inr:
  assumes "user_schedule_request ext g cs nick dt = Inr rq"
  shows "format_courses cs = Inr (formatted_courses (templates rq))"
    and "make_title_lines ext nick dt = Inr (title_lines (templates rq))"
  using assms by (auto simp: user_schedule_request_def split: sum.splits)

text \<open>
  Claim C2. For course entries whose times are typed (absent, \<^verbatim>\<open>None\<close> or a
  timestamp), the personal schedule builds its request without an exception, and for
  every entry: when \<^verbatim>\<open>start_time\<close> or \<^verbatim>\<open>end_time\<close> is missing, its time string
  is the placeholder (U+65F6 U+95F4 U+672A U+77E5); when both are timestamps, it is
  \<^verbatim>\<open>HH:MM - HH:MM\<close> of the two, hours and minutes zero-padded to two digits.
  An entry with a missing time is formatted without an exception whatever its other
  fields hold.
\<close>

theorem user_schedule_time_str:
  assumes "list_all course_times_typed cs" and "k < length cs"
  shows "\<exists>rq. user_schedule_request ext g cs nick dt = Inr rq \<and>
     length (formatted_courses (templates rq)) = length cs \<and>
     (missing (cs ! k) ''start_time'' \<or> missing (cs ! k) ''end_time''
        \<longrightarrow> time_str (formatted_courses (templates rq) ! k) = TIME_UNKNOWN) \<and>
     (\<forall>s e. (cs ! k) ''start_time'' = Some (PDatetime s) \<and>
            (cs ! k) ''end_time'' = Some (PDatetime e)
        \<longrightarrow> time_str (formatted_courses (templates rq) ! k) = hhmm s @ '' - '' @ hhmm e) \<and>
     hhmm t = zero_pad 2 (hour t) @ '':'' @ zero_pad 2 (minute t) \<and>
     (missing c ''start_time'' \<or> missing c ''end_time''
        \<longrightarrow> (\<exists>fc. format_course c = Inr fc \<and> time_str fc = TIME_UNKNOWN))"
proof -
  from format_courses_typed [OF assms(1)] obtain fcs where
    f: "format_courses cs = Inr fcs" by blast
  from user_schedule_request_courses [OF f, of ext g nick dt] obtain rq where
    rq: "user_schedule_request ext g cs nick dt = Inr rq" and
    fc: "formatted_courses (templates rq) = fcs"
    by blast
  from format_courses_nth [OF f] assms(2) have
    l: "length fcs = length cs" and
    c: "format_course (cs ! k) = Inr (fcs ! k)"
    by simp_all
  from format_course_time_str [OF c] have
    t: "make_time_str (cs ! k) = Inr (time_str (fcs ! k))" .
  have a: "missing (cs ! k) ''start_time'' \<or> missing (cs ! k) ''end_time''
      \<longrightarrow> time_str (fcs ! k) = TIME_UNKNOWN"
    using t make_time_str_missing [of "cs ! k"] by auto
  have b: "\<forall>s e. (cs ! k) ''start_time'' = Some (PDatetime s) \<and>
      (cs ! k) ''end_time'' = Some (PDatetime e)
      \<longrightarrow> time_str (fcs ! k) = hhmm s @ '' - '' @ hhmm e"
    using t make_time_str_present [of "cs ! k"] by auto
  have m: "missing c ''start_time'' \<or> missing c ''end_time''
      \<longrightarrow> (\<exists>fc. format_course c = Inr fc \<and> time_str fc = TIME_UNKNOWN)"
    using make_time_str_missing [of c] by (auto simp: format_course_def Let_def)
  show ?thesis
    using rq l a b m unfolding fc [symmetric]
    by (intro exI [of _ rq] conjI) (simp_all add: hhmm_def)
qed

theorem user_schedule_time_str_witness:
  "\<exists>rq. user_schedule_request sample_extern sample_generator [sample_course, timed_course]
       ''alice'' None = Inr rq \<and>
     time_str (formatted_courses (templates rq) ! 0) = TIME_UNKNOWN \<and>
     time_str (formatted_courses (templates rq) ! 1) = ''08:05 - 09:40''"
proof -
  let ?cs = "[sample_course, timed_course]"
  let ?req = "user_schedule_request sample_extern sample_generator ?cs ''alice'' None"
  have ty: "list_all course_times_typed ?cs"
    by (simp add: sample_course_def timed_course_def course_times_typed_def
        optional_datetime_def)
  have m: "missing (?cs ! 0) ''start_time''"
    by (simp add: sample_course_def missing_def)
  have p: "(?cs ! 1) ''start_time'' = Some (PDatetime sample_datetime)"
    "(?cs ! 1) ''end_time'' = Some (PDatetime (sample_datetime\<lparr>hour := 9, minute := 40\<rparr>))"
    by (simp_all add: timed_course_def)
  have h: "hhmm sample_datetime @ '' - '' @ hhmm (sample_datetime\<lparr>hour := 9, minute := 40\<rparr>)
      = ''08:05 - 09:40''"
    by (simp add: hhmm_def sample_datetime_def zero_pad_def str_nat.simps digit_char_def)
  have k0: "0 < length ?cs" and k1: "1 < length ?cs"
    by simp_all
  from user_schedule_time_str [OF ty k0, of sample_extern sample_generator "''alice''" None]
  obtain rq where
    f: "?req = Inr rq" and
    a: "missing (?cs ! 0) ''start_time'' \<or> missing (?cs ! 0) ''end_time''
        \<longrightarrow> time_str (formatted_courses (templates rq) ! 0) = TIME_UNKNOWN"
    by blast
  from user_schedule_time_str [OF ty k1, of sample_extern sample_generator "''alice''" None]
  obtain rq' where
    f': "?req = Inr rq'" and
    b: "\<forall>s e. (?cs ! 1) ''start_time'' = Some (PDatetime s) \<and>
            (?cs ! 1) ''end_time'' = Some (PDatetime e)
        \<longrightarrow> time_str (formatted_courses (templates rq') ! 1) = hhmm s @ '' - '' @ hhmm e"
    by blast
  from f f' have eq: "rq' = rq" by simp
  from a m have r0: "time_str (formatted_courses (templates rq) ! 0) = TIME_UNKNOWN" by simp
  from b p have "time_str (formatted_courses (templates rq') ! 1) =
      hhmm sample_datetime @ '' - '' @ hhmm (sample_datetime\<lparr>hour := 9, minute := 40\<rparr>)"
    by blast
  with h eq have r1: "time_str (formatted_courses (templates rq) ! 1) = ''08:05 - 09:40''"
    by simp
  show ?thesis
    by (intro exI [of _ rq] conjI) (rule f r0 r1)+
qed

text \<open>
  Claim C5. The title of the personal schedule has two lines. The first is the
  nickname followed by U+7684. The second starts with the literal U+4ECA U+65E5 when no
  reference date is given, and with the date as \<^verbatim>\<open>MM-DD\<close> and a space when one is
  given; then come U+8BFE U+7A0B, the weekday name in full-width parentheses. The name
  is entry \<^verbatim>\<open>weekday()\<close> of the table of seven names (Monday at index 0, and the
  index is always below 7), taken from the reference date when given, and otherwise
  from the first reading of the clock in the zone eight hours east of UTC.
\<close>

theorem user_schedule_title_lines:
  assumes "user_schedule_request ext g cs nick dt = Inr rq"
  shows "(dt = None \<longrightarrow> title_lines (templates rq) =
            [nick @ DE,
             TODAY @ KECHENG_OPEN @ weeklist ! weekday (now ext 8 0) @ PAREN_CLOSE]) \<and>
         (\<forall>d. dt = Some d \<longrightarrow> title_lines (templates rq) =
            [nick @ DE,
             zero_pad 2 (month d) @ ''-'' @ zero_pad 2 (day d) @ '' '' @ KECHENG_OPEN @
             weeklist ! weekday d @ PAREN_CLOSE]) \<and>
         weeklist = [ZHOU_YI, ZHOU_ER, ZHOU_SAN, ZHOU_SI, ZHOU_WU, ZHOU_LIU, ZHOU_RI] \<and>
         weekday (d' :: datetime) < length weeklist \<and>
         weekday d' = (toordinal d' + 6) mod 7 \<and>
         weekday \<lparr>year = 1, month = 1, day = 1\<rparr> = 0"
proof -
  from user_schedule_request_Inr(2) [OF assms] have
    t: "make_title_lines ext nick dt = Inr (title_lines (templates rq))" .
  have a: "dt = None \<longrightarrow> title_lines (templates rq) =
      [nick @ DE, TODAY @ KECHENG_OPEN @ weeklist ! weekday (now ext 8 0) @ PAREN_CLOSE]"
    using t by (auto simp: make_title_lines_None)
  have b: "\<forall>d. dt = Some d \<longrightarrow> title_lines (templates rq) =
      [nick @ DE,
       zero_pad 2 (month d) @ ''-'' @ zero_pad 2 (day d) @ '' '' @ KECHENG_OPEN @
       weeklist ! weekday d @ PAREN_CLOSE]"
    using t by (auto simp: make_title_lines_Some)
  have c: "weekday \<lparr>year = 1, month = 1, day = 1\<rparr> = 0"
    by (simp add: weekday_def toordinal_def days_before_year_def days_before_month_def
        DAYS_BEFORE_MONTH_def)
  show ?thesis
    using a b c by (intro conjI) (simp_all add: weeklist_def weekday_def)
qed

text \<open>
  2024-01-01 was a Monday. With that reference date, and with none while the clock
  shows that day, the title names Monday.
\<close>

theorem user_schedule_title_lines_witness:
  "(\<exists>rq. user_schedule_request sample_extern sample_generator [] ''alice''
        (Some sample_datetime) = Inr rq \<and>
      title_lines (templates rq) =
        [''alice'' @ DE, ''01-01 '' @ KECHENG_OPEN @ ZHOU_YI @ PAREN_CLOSE]) \<and>
   (\<exists>rq. user_schedule_request sample_extern sample_generator [] ''alice'' None = Inr rq \<and>
      title_lines (templates rq) =
        [''alice'' @ DE, TODAY @ KECHENG_OPEN @ ZHOU_YI @ PAREN_CLOSE])"
proof -
  have f: "format_courses [] = Inr []" by simp
  have wd: "weekday sample_datetime = 0"
    by (simp add: weekday_def toordinal_def days_before_year_def days_before_month_def
        DAYS_BEFORE_MONTH_def sample_datetime_def is_leap_def)
  have w0: "weeklist ! 0 = ZHOU_YI"
    by (simp add: weeklist_def)
  have md: "month sample_datetime = 1" "day sample_datetime = 1"
    by (simp_all add: sample_datetime_def)
  have nw: "now sample_extern 8 0 = sample_datetime"
    by (simp add: sample_extern_def)
  from user_schedule_request_courses [OF f, of sample_extern sample_generator "''alice''"
      "Some sample_datetime"]
  obtain rq1 where
    r1: "user_schedule_request sample_extern sample_generator [] ''alice''
        (Some sample_datetime) = Inr rq1"
    by blast
  from user_schedule_request_courses [OF f, of sample_extern sample_generator "''alice''" None]
  obtain rq2 where
    r2: "user_schedule_request sample_extern sample_generator [] ''alice'' None = Inr rq2"
    by blast
  have t1: "title_lines (templates rq1) =
      [''alice'' @ DE, ''01-01 '' @ KECHENG_OPEN @ ZHOU_YI @ PAREN_CLOSE]"
    using user_schedule_title_lines [OF r1, of sample_datetime]
    by (simp add: wd w0 md zero_pad_def str_nat.simps digit_char_def)
  have t2: "title_lines (templates rq2) =
      [''alice'' @ DE, TODAY @ KECHENG_OPEN @ ZHOU_YI @ PAREN_CLOSE]"
    using user_schedule_title_lines [OF r2, of sample_datetime]
    by (simp add: nw wd w0)
  show ?thesis
    by (intro conjI exI [of _ rq1] exI [of _ rq2]) (rule r1 r2 t1 t2)+
qed

lemma format_course_detail_lines:
  "format_course c = Inr fc \<Longrightarrow>
   detail_lines fc =
     [case c ''summary'' of None \<Rightarrow> PStr NO_COURSE_INFO | Some v \<Rightarrow> v,
      case c ''location'' of None \<Rightarrow> PStr UNKNOWN_LOCATION | Some v \<Rightarrow> v,
      case c ''description'' of None \<Rightarrow> PStr UNKNOWN_TEACHER | Some v \<Rightarrow> v]"
  by (auto simp: format_course_def dict_get_default_def Let_def split: sum.splits)

lemma format_course_time_None:
  assumes "c ''start_time'' = Some PNone \<or> c ''end_time'' = Some PNone"
  shows "\<exists>fc. format_course c = Inr fc \<and> time_str fc = TIME_UNKNOWN"
proof -
  from assms have "missing c ''start_time'' \<or> missing c ''end_time''"
    by (auto simp: missing_def)
  then have "make_time_str c = Inr TIME_UNKNOWN"
    by (rule make_time_str_missing)
  then show ?thesis
    by (simp add: format_course_def Let_def)
qed

text \<open>
  Claim C9. In the personal schedule the three detail lines are the values under
  \<^verbatim>\<open>summary\<close>, \<^verbatim>\<open>location\<close> and \<^verbatim>\<open>description\<close>. The placeholder of a line
  stands in exactly when its key is absent; a key that is present passes its value on
  unchanged, so that a present \<^verbatim>\<open>None\<close> stays \<^verbatim>\<open>None\<close> and is not replaced.
  The time placeholder is different: it also applies when \<^verbatim>\<open>start_time\<close> or
  \<^verbatim>\<open>end_time\<close> is present with the value \<^verbatim>\<open>None\<close>, and the entry is then formatted
  without an exception.
\<close>

theorem user_schedule_detail_defaults:
  "(format_course c = Inr fc \<longrightarrow>
      length (detail_lines fc) = 3 \<and>
      (c ''summary'' = None \<longrightarrow> detail_lines fc ! 0 = PStr NO_COURSE_INFO) \<and>
      (c ''location'' = None \<longrightarrow> detail_lines fc ! 1 = PStr UNKNOWN_LOCATION) \<and>
      (c ''description'' = None \<longrightarrow> detail_lines fc ! 2 = PStr UNKNOWN_TEACHER) \<and>
      (\<forall>v. c ''summary'' = Some v \<longrightarrow> detail_lines fc ! 0 = v) \<and>
      (\<forall>v. c ''location'' = Some v \<longrightarrow> detail_lines fc ! 1 = v) \<and>
      (\<forall>v. c ''description'' = Some v \<longrightarrow> detail_lines fc ! 2 = v)) \<and>
   (c ''start_time'' = Some PNone \<or> c ''end_time'' = Some PNone \<longrightarrow>
      (\<exists>fc'. format_course c = Inr fc' \<and> time_str fc' = TIME_UNKNOWN))"
proof -
  have a: "format_course c = Inr fc \<longrightarrow>
      length (detail_lines fc) = 3 \<and>
      (c ''summary'' = None \<longrightarrow> detail_lines fc ! 0 = PStr NO_COURSE_INFO) \<and>
      (c ''location'' = None \<longrightarrow> detail_lines fc ! 1 = PStr UNKNOWN_LOCATION) \<and>
      (c ''description'' = None \<longrightarrow> detail_lines fc ! 2 = PStr UNKNOWN_TEACHER) \<and>
      (\<forall>v. c ''summary'' = Some v \<longrightarrow> detail_lines fc ! 0 = v) \<and>
      (\<forall>v. c ''location'' = Some v \<longrightarrow> detail_lines fc ! 1 = v) \<and>
      (\<forall>v. c ''description'' = Some v \<longrightarrow> detail_lines fc ! 2 = v)"
  proof
    assume "format_course c = Inr fc"
    from format_course_detail_lines [OF this] show
      "length (detail_lines fc) = 3 \<and>
      (c ''summary'' = None \<longrightarrow> detail_lines fc ! 0 = PStr NO_COURSE_INFO) \<and>
      (c ''location'' = None \<longrightarrow> detail_lines fc ! 1 = PStr UNKNOWN_LOCATION) \<and>
      (c ''description'' = None \<longrightarrow> detail_lines fc ! 2 = PStr UNKNOWN_TEACHER) \<and>
      (\<forall>v. c ''summary'' = Some v \<longrightarrow> detail_lines fc ! 0 = v) \<and>
      (\<forall>v. c ''location'' = Some v \<longrightarrow> detail_lines fc ! 1 = v) \<and>
      (\<forall>v. c ''description'' = Some v \<longrightarrow> detail_lines fc ! 2 = v)"
      by simp
  qed
  have b: "c ''start_time'' = Some PNone \<or> c ''end_time'' = Some PNone \<longrightarrow>
      (\<exists>fc'. format_course c = Inr fc' \<and> time_str fc' = TIME_UNKNOWN)"
    using format_course_time_None [of c] by blast
  show ?thesis by (rule conjI [OF a b])
qed

text \<open>
  The sample course has \<^verbatim>\<open>summary\<close> and \<^verbatim>\<open>start_time\<close> present with
  \<^verbatim>\<open>None\<close>, no \<^verbatim>\<open>location\<close>, and a description.
\<close>

theorem user_schedule_detail_defaults_witness:
  "\<exists>fc. format_course sample_course = Inr fc \<and> time_str fc = TIME_UNKNOWN \<and>
     detail_lines fc ! 0 = PNone \<and> detail_lines fc ! 1 = PStr UNKNOWN_LOCATION \<and>
     detail_lines fc ! 2 = PStr ''Dr. Li''"
proof -
  have s: "sample_course ''summary'' = Some PNone" "sample_course ''location'' = None"
    "sample_course ''description'' = Some (PStr ''Dr. Li'')"
    "sample_course ''start_time'' = Some PNone"
    by (simp_all add: sample_course_def)
  note inst = user_schedule_detail_defaults [of sample_course]
  from inst s(4) obtain fc where
    f: "format_course sample_course = Inr fc" and t: "time_str fc = TIME_UNKNOWN"
    by blast
  from inst [of fc] f s(1) have a: "detail_lines fc ! 0 = PNone" by blast
  from inst [of fc] f s(2) have b: "detail_lines fc ! 1 = PStr UNKNOWN_LOCATION" by blast
  from inst [of fc] f s(3) have c: "detail_lines fc ! 2 = PStr ''Dr. Li''" by blast
  show ?thesis
    by (intro exI [of _ fc] conjI) (rule f t a b c)+
qed

section \<open>Failures, empty inputs and the frame of a call\<close>

lemma fst_log_and_reraise: "fst (log_and_reraise prefix r) = fst r"
  by (cases r) (simp add: log_and_reraise_def split: sum.splits)

lemma self_log_and_reraise: "self (snd (log_and_reraise prefix r)) = self (snd r)"
  by (cases r) (simp add: log_and_reraise_def logger_error_def split: sum.splits)

lemma error_log_log_and_reraise:
  "error_log (snd (log_and_reraise prefix r)) =
     (case fst r of
        Inl e \<Rightarrow> if is_Exception e then error_log (snd r) @ [prefix @ exn_str e]
                 else error_log (snd r)
      | Inr v \<Rightarrow> error_log (snd r))"
  by (cases r) (simp add: log_and_reraise_def logger_error_def split: sum.splits)

lemma fst_render_and_save:
  "fst (render_and_save ext rq w) =
     (case external_failure ext rq of Some e \<Rightarrow> Inl e | None \<Rightarrow> NamedTemporaryFile ext)"
  by (simp add: render_and_save_def save_image_def external_failure_def Let_def
      split: sum.splits option.splits)

lemma self_render_and_save: "self (snd (render_and_save ext rq w)) = self w"
  by (simp add: render_and_save_def save_image_def Let_def split: sum.splits option.splits)

lemma error_log_render_and_save: "error_log (snd (render_and_save ext rq w)) = error_log w"
  by (simp add: render_and_save_def save_image_def Let_def split: sum.splits option.splits)

lemma render_and_save_ok:
  assumes "external_failure ext rq = None"
  shows "\<exists>p img. template_to_pic ext rq = Inr img \<and> NamedTemporaryFile ext = Inr p \<and>
     render_and_save ext rq w = (Inr p, w\<lparr>temp_files := (p, img) # temp_files w\<rparr>)"
  using assms
  by (auto simp: external_failure_def render_and_save_def save_image_def Let_def
      split: sum.splits option.splits)

lemma external_failure_renderer:
  "template_to_pic ext rq = Inl e \<Longrightarrow> external_failure ext rq = Some e"
  by (simp add: external_failure_def)

lemma external_failure_write:
  "template_to_pic ext rq = Inr img \<Longrightarrow> NamedTemporaryFile ext = Inr p \<Longrightarrow>
   write_error ext = Some e \<Longrightarrow> external_failure ext rq = Some e"
  by (simp add: external_failure_def)

lemma schedule_image_outcome:
  "fst (generate_schedule_image ext cs w) =
     (case external_failure ext (schedule_request (self w) cs) of
        Some e \<Rightarrow> Inl e | None \<Rightarrow> NamedTemporaryFile ext)"
  by (simp add: generate_schedule_image_def fst_log_and_reraise fst_render_and_save)

lemma user_schedule_image_outcome:
  "fst (generate_user_schedule_image ext cs nick dt w) =
     (case user_schedule_request ext (self w) cs nick dt of
        Inl e \<Rightarrow> Inl e
      | Inr rq \<Rightarrow>
          (case external_failure ext rq of Some e \<Rightarrow> Inl e | None \<Rightarrow> NamedTemporaryFile ext))"
  by (simp add: generate_user_schedule_image_def fst_log_and_reraise fst_render_and_save
      split: sum.splits)

lemma ranking_image_outcome:
  "fst (generate_ranking_image ext rd sd ed w) =
     (case ranking_request (self w) rd sd ed of
        Inl e \<Rightarrow> Inl e
      | Inr rq \<Rightarrow>
          (case external_failure ext rq of Some e \<Rightarrow> Inl e | None \<Rightarrow> NamedTemporaryFile ext))"
  by (simp add: generate_ranking_image_def fst_log_and_reraise fst_render_and_save
      split: sum.splits)

lemma schedule_image_log:
  "error_log (snd (generate_schedule_image ext cs w)) =
     (case fst (generate_schedule_image ext cs w) of
        Inl e \<Rightarrow> if is_Exception e then error_log w @ [MSG_SCHEDULE_FAILED @ exn_str e]
                 else error_log w
      | Inr p \<Rightarrow> error_log w)"
  by (simp add: generate_schedule_image_def fst_log_and_reraise error_log_log_and_reraise
      error_log_render_and_save split: sum.splits)

lemma user_schedule_image_log:
  "error_log (snd (generate_user_schedule_image ext cs nick dt w)) =
     (case fst (generate_user_schedule_image ext cs nick dt w) of
        Inl e \<Rightarrow> if is_Exception e then error_log w @ [MSG_USER_SCHEDULE_FAILED @ exn_str e]
                 else error_log w
      | Inr p \<Rightarrow> error_log w)"
  by (simp add: generate_user_schedule_image_def fst_log_and_reraise error_log_log_and_reraise
      error_log_render_and_save split: sum.splits)

lemma ranking_image_log:
  "error_log (snd (generate_ranking_image ext rd sd ed w)) =
     (case fst (generate_ranking_image ext rd sd ed w) of
        Inl e \<Rightarrow> if is_Exception e then error_log w @ [MSG_RANKING_FAILED @ exn_str e]
                 else error_log w
      | Inr p \<Rightarrow> error_log w)"
  by (simp add: generate_ranking_image_def fst_log_and_reraise error_log_log_and_reraise
      error_log_render_and_save split: sum.splits)

lemma run_self: "self (snd (run ext c w)) = self w"
  by (cases c)
    (simp_all add: generate_schedule_image_def generate_user_schedule_image_def
      generate_ranking_image_def self_log_and_reraise self_render_and_save split: sum.splits)

lemma run_outcome_self: "self w = self w' \<Longrightarrow> fst (run ext c w) = fst (run ext c w')"
  by (cases c)
    (simp_all add: schedule_image_outcome user_schedule_image_outcome ranking_image_outcome)

text \<open>
  Claim C3, as the code has it. In each of the three operations, when the renderer
  fails, or after it the creation, the write or the close of the temporary file, the
  call ends by raising the exception of that failure itself, the same object,
  unwrapped: the handler ends with a bare \<^verbatim>\<open>raise\<close>. When the exception is below
  \<^verbatim>\<open>Exception\<close> the handler first logs one line, the operation's message followed by
  the text of the exception; any other exception passes without a log line. No path is
  returned.
\<close>

theorem render_failure_propagates:
  assumes "external_failure ext rq = Some e"
  shows "(rq = schedule_request (self w) cs \<longrightarrow>
            fst (generate_schedule_image ext cs w) = Inl e \<and>
            error_log (snd (generate_schedule_image ext cs w))
              = (if is_Exception e then error_log w @ [MSG_SCHEDULE_FAILED @ exn_str e]
                 else error_log w)) \<and>
         (user_schedule_request ext (self w) cs' nick dt = Inr rq \<longrightarrow>
            fst (generate_user_schedule_image ext cs' nick dt w) = Inl e \<and>
            error_log (snd (generate_user_schedule_image ext cs' nick dt w))
              = (if is_Exception e then error_log w @ [MSG_USER_SCHEDULE_FAILED @ exn_str e]
                 else error_log w)) \<and>
         (ranking_request (self w) rd start_date end_date = Inr rq \<longrightarrow>
            fst (generate_ranking_image ext rd start_date end_date w) = Inl e \<and>
            error_log (snd (generate_ranking_image ext rd start_date end_date w))
              = (if is_Exception e then error_log w @ [MSG_RANKING_FAILED @ exn_str e]
                 else error_log w))"
proof -
  have a: "rq = schedule_request (self w) cs \<longrightarrow>
      fst (generate_schedule_image ext cs w) = Inl e \<and>
      error_log (snd (generate_schedule_image ext cs w))
        = (if is_Exception e then error_log w @ [MSG_SCHEDULE_FAILED @ exn_str e]
           else error_log w)"
  proof
    assume r: "rq = schedule_request (self w) cs"
    from assms r have "fst (generate_schedule_image ext cs w) = Inl e"
      by (simp add: schedule_image_outcome)
    then show "fst (generate_schedule_image ext cs w) = Inl e \<and>
      error_log (snd (generate_schedule_image ext cs w))
        = (if is_Exception e then error_log w @ [MSG_SCHEDULE_FAILED @ exn_str e]
           else error_log w)"
      by (simp add: schedule_image_log)
  qed
  have b: "user_schedule_request ext (self w) cs' nick dt = Inr rq \<longrightarrow>
      fst (generate_user_schedule_image ext cs' nick dt w) = Inl e \<and>
      error_log (snd (generate_user_schedule_image ext cs' nick dt w))
        = (if is_Exception e then error_log w @ [MSG_USER_SCHEDULE_FAILED @ exn_str e]
           else error_log w)"
  proof
    assume r: "user_schedule_request ext (self w) cs' nick dt = Inr rq"
    from assms r have "fst (generate_user_schedule_image ext cs' nick dt w) = Inl e"
      by (simp add: user_schedule_image_outcome)
    then show "fst (generate_user_schedule_image ext cs' nick dt w) = Inl e \<and>
      error_log (snd (generate_user_schedule_image ext cs' nick dt w))
        = (if is_Exception e then error_log w @ [MSG_USER_SCHEDULE_FAILED @ exn_str e]
           else error_log w)"
      by (simp add: user_schedule_image_log)
  qed
  have c: "ranking_request (self w) rd start_date end_date = Inr rq \<longrightarrow>
      fst (generate_ranking_image ext rd start_date end_date w) = Inl e \<and>
      error_log (snd (generate_ranking_image ext rd start_date end_date w))
        = (if is_Exception e then error_log w @ [MSG_RANKING_FAILED @ exn_str e]
           else error_log w)"
  proof
    assume r: "ranking_request (self w) rd start_date end_date = Inr rq"
    from assms r have "fst (generate_ranking_image ext rd start_date end_date w) = Inl e"
      by (simp add: ranking_image_outcome)
    then show "fst (generate_ranking_image ext rd start_date end_date w) = Inl e \<and>
      error_log (snd (generate_ranking_image ext rd start_date end_date w))
        = (if is_Exception e then error_log w @ [MSG_RANKING_FAILED @ exn_str e]
           else error_log w)"
      by (simp add: ranking_image_log)
  qed
  show ?thesis by (rule conjI [OF a conjI [OF b c]])
qed

text \<open>
  A renderer that does not find the template fails all three operations with its own
  exception, logged; a disk that refuses the write does so after the renderer has
  delivered; a cancelled task fails the call without a log line.
\<close>

theorem render_failure_propagates_witness:
  "generate_schedule_image failing_extern [] sample_world =
     (Inl (ExternalError ''TemplateNotFound'' ''group_schedule.html''),
      sample_world\<lparr>error_log := [MSG_SCHEDULE_FAILED @ ''group_schedule.html'']\<rparr>) \<and>
   fst (generate_user_schedule_image failing_extern [] ''alice'' None sample_world) =
     Inl (ExternalError ''TemplateNotFound'' ''group_schedule.html'') \<and>
   fst (generate_ranking_image failing_extern sample_ranking sample_date sample_date sample_world) =
     Inl (ExternalError ''TemplateNotFound'' ''group_schedule.html'') \<and>
   fst (generate_schedule_image
         (sample_extern\<lparr>write_error := Some (ExternalError ''OSError'' ''disk full'')\<rparr>)
         [] sample_world) = Inl (ExternalError ''OSError'' ''disk full'') \<and>
   error_log (snd (generate_schedule_image cancelled_extern [] sample_world)) = []"
proof -
  let ?e = "ExternalError ''TemplateNotFound'' ''group_schedule.html''"
  let ?full = "sample_extern\<lparr>write_error := Some (ExternalError ''OSError'' ''disk full'')\<rparr>"
  have x: "external_failure failing_extern rq = Some ?e" for rq
    by (rule external_failure_renderer) (simp add: failing_extern_def)
  have y: "external_failure ?full rq = Some (ExternalError ''OSError'' ''disk full'')" for rq
    by (simp add: external_failure_def sample_extern_def)
  have z: "external_failure cancelled_extern rq = Some (BaseError ''CancelledError'' [])" for rq
    by (rule external_failure_renderer) (simp add: cancelled_extern_def)
  from user_schedule_request_courses [of "[]" "[]" failing_extern "self sample_world" "''alice''" None]
  obtain rq1 where
    r1: "user_schedule_request failing_extern (self sample_world) [] ''alice'' None = Inr rq1"
    by auto
  from sample_ranking_request obtain rq2 where
    r2: "ranking_request (self sample_world) sample_ranking sample_date sample_date = Inr rq2"
    by (auto simp: sample_world_def)
  have a1: "fst (generate_schedule_image failing_extern [] sample_world) = Inl ?e"
    and a2: "error_log (snd (generate_schedule_image failing_extern [] sample_world)) =
      error_log sample_world @ [MSG_SCHEDULE_FAILED @ exn_str ?e]"
    using render_failure_propagates
      [OF x [of "schedule_request (self sample_world) []"], where w = sample_world and cs = "[]"]
    by simp_all
  have b: "fst (generate_user_schedule_image failing_extern [] ''alice'' None sample_world) = Inl ?e"
    using render_failure_propagates [OF x [of rq1], where w = sample_world] r1 by simp
  have c: "fst (generate_ranking_image failing_extern sample_ranking sample_date sample_date
      sample_world) = Inl ?e"
    using render_failure_propagates [OF x [of rq2], where w = sample_world] r2 by simp
  have d: "fst (generate_schedule_image ?full [] sample_world) =
      Inl (ExternalError ''OSError'' ''disk full'')"
    using render_failure_propagates
      [OF y [of "schedule_request (self sample_world) []"], where w = sample_world and cs = "[]"]
    by simp
  have e: "error_log (snd (generate_schedule_image cancelled_extern [] sample_world)) = []"
    using render_failure_propagates
      [OF z [of "schedule_request (self sample_world) []"], where w = sample_world and cs = "[]"]
    by (simp add: sample_world_def)
  have t: "temp_files (snd (generate_schedule_image failing_extern [] sample_world)) = []"
    by (simp add: generate_schedule_image_def render_and_save_def failing_extern_def
        log_and_reraise_def logger_error_def sample_world_def)
  have s: "self (snd (generate_schedule_image failing_extern [] sample_world)) = sample_generator"
    using run_self [of failing_extern "ScheduleCall []" sample_world]
    by (simp add: sample_world_def)
  have a: "generate_schedule_image failing_extern [] sample_world =
     (Inl ?e, sample_world\<lparr>error_log := [MSG_SCHEDULE_FAILED @ ''group_schedule.html'']\<rparr>)"
    using a1 a2 t s
    by (cases "generate_schedule_image failing_extern [] sample_world")
      (simp add: sample_world_def)
  show ?thesis
    by (intro conjI) (rule a b c d e)+
qed

text \<open>
  The claim as it was stated names an error kind \<^verbatim>\<open>RenderError\<close> that carries the
  cause, raised after logging. When the renderer raises \<^verbatim>\<open>TemplateNotFound\<close>, the
  group schedule raises that very exception, whose class is not \<^verbatim>\<open>RenderError\<close>;
  and when the task is cancelled inside the renderer, the exception reaches the caller
  with nothing logged and the world unchanged.
\<close>

theorem render_failure_is_not_wrapped:
  "external_failure failing_extern (schedule_request (self sample_world) []) =
     Some (ExternalError ''TemplateNotFound'' ''group_schedule.html'') \<and>
   fst (generate_schedule_image failing_extern [] sample_world) =
     Inl (ExternalError ''TemplateNotFound'' ''group_schedule.html'') \<and>
   exn_class (ExternalError ''TemplateNotFound'' ''group_schedule.html'') = ''TemplateNotFound'' \<and>
   \<not> is_RenderError (ExternalError ''TemplateNotFound'' ''group_schedule.html'') \<and>
   generate_schedule_image cancelled_extern [] sample_world =
     (Inl (BaseError ''CancelledError'' []), sample_world)"
proof -
  have a: "external_failure failing_extern (schedule_request (self sample_world) []) =
     Some (ExternalError ''TemplateNotFound'' ''group_schedule.html'')"
    by (simp add: external_failure_def failing_extern_def)
  then have b: "fst (generate_schedule_image failing_extern [] sample_world) =
     Inl (ExternalError ''TemplateNotFound'' ''group_schedule.html'')"
    by (simp add: schedule_image_outcome)
  have c: "exn_class (ExternalError ''TemplateNotFound'' ''group_schedule.html'') =
      ''TemplateNotFound''"
    by simp
  have d: "\<not> is_RenderError (ExternalError ''TemplateNotFound'' ''group_schedule.html'')"
    by (simp add: is_RenderError_def)
  have e: "generate_schedule_image cancelled_extern [] sample_world =
     (Inl (BaseError ''CancelledError'' []), sample_world)"
    by (simp add: generate_schedule_image_def render_and_save_def cancelled_extern_def
        log_and_reraise_def)
  show ?thesis
    by (intro conjI) (rule a b c d e)+
qed

text \<open>
  Claim C7. For the empty list each operation builds its request without an exception
  (no division and no index is out of range), and the list in the request is empty.
  When the renderer and the temporary file succeed, the renderer is given that request,
  the bytes it returns are written to the new temporary file, and the call returns the
  path of that file; nothing else changes and nothing is logged.
\<close>

theorem empty_input_renders:
  "(\<exists>rq. rq = schedule_request (self w) [] \<and>
      rq = \<lparr>rq_template_path = template_path (self w), template_name = ''group_schedule.html'',
            templates = GroupScheduleData [], max_width = 1200, device_height = 800\<rparr> \<and>
      (external_failure ext rq = None \<longrightarrow>
         (\<exists>p img. template_to_pic ext rq = Inr img \<and> NamedTemporaryFile ext = Inr p \<and>
            generate_schedule_image ext [] w
              = (Inr p, w\<lparr>temp_files := (p, img) # temp_files w\<rparr>)))) \<and>
   (\<exists>rq title. user_schedule_request ext (self w) [] nick dt = Inr rq \<and>
      make_title_lines ext nick dt = Inr title \<and>
      rq = \<lparr>rq_template_path = template_path (self w), template_name = ''user_schedule.html'',
            templates = UserScheduleData title [] (make_generate_time ext dt),
            max_width = 1000, device_height = 600\<rparr> \<and>
      (external_failure ext rq = None \<longrightarrow>
         (\<exists>p img. template_to_pic ext rq = Inr img \<and> NamedTemporaryFile ext = Inr p \<and>
            generate_user_schedule_image ext [] nick dt w
              = (Inr p, w\<lparr>temp_files := (p, img) # temp_files w\<rparr>)))) \<and>
   (\<exists>rq. ranking_request (self w) [] start_date end_date = Inr rq \<and>
      rq = \<lparr>rq_template_path = template_path (self w), template_name = ''ranking.html'',
            templates = RankingData
              (date_strftime start_date ''%Y/%m/%d'' @ '' - '' @
               date_strftime end_date ''%Y/%m/%d'') [],
            max_width = 1200, device_height = 800\<rparr> \<and>
      (external_failure ext rq = None \<longrightarrow>
         (\<exists>p img. template_to_pic ext rq = Inr img \<and> NamedTemporaryFile ext = Inr p \<and>
            generate_ranking_image ext [] start_date end_date w
              = (Inr p, w\<lparr>temp_files := (p, img) # temp_files w\<rparr>))))"
proof -
  have ok: "\<exists>p img. template_to_pic ext rq = Inr img \<and> NamedTemporaryFile ext = Inr p \<and>
      log_and_reraise prefix (render_and_save ext rq w)
        = (Inr p, w\<lparr>temp_files := (p, img) # temp_files w\<rparr>)"
    if "external_failure ext rq = None" for rq prefix
  proof -
    from render_and_save_ok [OF that, of w] obtain p img where
      "template_to_pic ext rq = Inr img" "NamedTemporaryFile ext = Inr p"
      "render_and_save ext rq w = (Inr p, w\<lparr>temp_files := (p, img) # temp_files w\<rparr>)"
      by blast
    then show ?thesis by (simp add: log_and_reraise_def)
  qed
  let ?r0 = "schedule_request (self w) []"
  have a: "\<exists>rq. rq = schedule_request (self w) [] \<and>
      rq = \<lparr>rq_template_path = template_path (self w), template_name = ''group_schedule.html'',
            templates = GroupScheduleData [], max_width = 1200, device_height = 800\<rparr> \<and>
      (external_failure ext rq = None \<longrightarrow>
         (\<exists>p img. template_to_pic ext rq = Inr img \<and> NamedTemporaryFile ext = Inr p \<and>
            generate_schedule_image ext [] w
              = (Inr p, w\<lparr>temp_files := (p, img) # temp_files w\<rparr>)))"
  proof (intro exI [of _ ?r0] conjI impI)
    show "?r0 = schedule_request (self w) []" ..
    show "?r0 = \<lparr>rq_template_path = template_path (self w),
        template_name = ''group_schedule.html'',
        templates = GroupScheduleData [], max_width = 1200, device_height = 800\<rparr>"
      by (simp add: schedule_request_def)
    assume "external_failure ext ?r0 = None"
    from ok [OF this, of MSG_SCHEDULE_FAILED]
    show "\<exists>p img. template_to_pic ext ?r0 = Inr img \<and> NamedTemporaryFile ext = Inr p \<and>
            generate_schedule_image ext [] w
              = (Inr p, w\<lparr>temp_files := (p, img) # temp_files w\<rparr>)"
      by (simp add: generate_schedule_image_def)
  qed
  from make_title_lines_total [of ext nick dt] obtain title where
    t: "make_title_lines ext nick dt = Inr title" by blast
  let ?r1 = "\<lparr>rq_template_path = template_path (self w), template_name = ''user_schedule.html'',
            templates = UserScheduleData title [] (make_generate_time ext dt),
            max_width = 1000, device_height = 600\<rparr>"
  have u: "user_schedule_request ext (self w) [] nick dt = Inr ?r1"
    using t by (simp add: user_schedule_request_def)
  have b: "\<exists>rq title. user_schedule_request ext (self w) [] nick dt = Inr rq \<and>
      make_title_lines ext nick dt = Inr title \<and>
      rq = \<lparr>rq_template_path = template_path (self w), template_name = ''user_schedule.html'',
            templates = UserScheduleData title [] (make_generate_time ext dt),
            max_width = 1000, device_height = 600\<rparr> \<and>
      (external_failure ext rq = None \<longrightarrow>
         (\<exists>p img. template_to_pic ext rq = Inr img \<and> NamedTemporaryFile ext = Inr p \<and>
            generate_user_schedule_image ext [] nick dt w
              = (Inr p, w\<lparr>temp_files := (p, img) # temp_files w\<rparr>)))"
  proof (intro exI [of _ ?r1] exI [of _ title] conjI impI)
    show "user_schedule_request ext (self w) [] nick dt = Inr ?r1" by (rule u)
    show "make_title_lines ext nick dt = Inr title" by (rule t)
    show "?r1 = ?r1" ..
    assume "external_failure ext ?r1 = None"
    from ok [OF this, of MSG_USER_SCHEDULE_FAILED]
    show "\<exists>p img. template_to_pic ext ?r1 = Inr img \<and> NamedTemporaryFile ext = Inr p \<and>
            generate_user_schedule_image ext [] nick dt w
              = (Inr p, w\<lparr>temp_files := (p, img) # temp_files w\<rparr>)"
      by (simp add: generate_user_schedule_image_def u)
  qed
  let ?r2 = "\<lparr>rq_template_path = template_path (self w), template_name = ''ranking.html'',
            templates = RankingData
              (date_strftime start_date ''%Y/%m/%d'' @ '' - '' @
               date_strftime end_date ''%Y/%m/%d'') [],
            max_width = 1200, device_height = 800\<rparr>"
  have v: "ranking_request (self w) [] start_date end_date = Inr ?r2"
    by (simp add: ranking_request_def Let_def)
  have c: "\<exists>rq. ranking_request (self w) [] start_date end_date = Inr rq \<and>
      rq = \<lparr>rq_template_path = template_path (self w), template_name = ''ranking.html'',
            templates = RankingData
              (date_strftime start_date ''%Y/%m/%d'' @ '' - '' @
               date_strftime end_date ''%Y/%m/%d'') [],
            max_width = 1200, device_height = 800\<rparr> \<and>
      (external_failure ext rq = None \<longrightarrow>
         (\<exists>p img. template_to_pic ext rq = Inr img \<and> NamedTemporaryFile ext = Inr p \<and>
            generate_ranking_image ext [] start_date end_date w
              = (Inr p, w\<lparr>temp_files := (p, img) # temp_files w\<rparr>)))"
  proof (intro exI [of _ ?r2] conjI impI)
    show "ranking_request (self w) [] start_date end_date = Inr ?r2" by (rule v)
    show "?r2 = ?r2" ..
    assume "external_failure ext ?r2 = None"
    from ok [OF this, of MSG_RANKING_FAILED]
    show "\<exists>p img. template_to_pic ext ?r2 = Inr img \<and> NamedTemporaryFile ext = Inr p \<and>
            generate_ranking_image ext [] start_date end_date w
              = (Inr p, w\<lparr>temp_files := (p, img) # temp_files w\<rparr>)"
      by (simp add: generate_ranking_image_def v)
  qed
  show ?thesis by (rule conjI [OF a conjI [OF b c]])
qed

text \<open>
  With the sample collaborators, which all succeed, each call returns the path, and
  the file at that path holds the bytes of the renderer.
\<close>

theorem empty_input_renders_witness:
  "generate_schedule_image sample_extern [] sample_world =
     (Inr ''/tmp/tmpab12.png'', sample_world\<lparr>temp_files := [(''/tmp/tmpab12.png'', ''PNG'')]\<rparr>) \<and>
   generate_user_schedule_image sample_extern [] ''alice'' None sample_world =
     (Inr ''/tmp/tmpab12.png'', sample_world\<lparr>temp_files := [(''/tmp/tmpab12.png'', ''PNG'')]\<rparr>) \<and>
   generate_ranking_image sample_extern [] sample_date sample_date sample_world =
     (Inr ''/tmp/tmpab12.png'', sample_world\<lparr>temp_files := [(''/tmp/tmpab12.png'', ''PNG'')]\<rparr>)"
proof -
  have n: "external_failure sample_extern rq = None" for rq
    by (simp add: external_failure_def sample_extern_def)
  have t: "NamedTemporaryFile sample_extern = Inr p \<longleftrightarrow> p = ''/tmp/tmpab12.png''" for p
    by (auto simp: sample_extern_def)
  have r: "template_to_pic sample_extern rq = Inr img \<longleftrightarrow> img = ''PNG''" for rq img
    by (auto simp: sample_extern_def)
  have f: "temp_files sample_world = []"
    by (simp add: sample_world_def)
  note inst = empty_input_renders [of sample_world sample_extern "''alice''" None
      sample_date sample_date]
  from inst have a:
    "generate_schedule_image sample_extern [] sample_world =
       (Inr ''/tmp/tmpab12.png'', sample_world\<lparr>temp_files := [(''/tmp/tmpab12.png'', ''PNG'')]\<rparr>)"
    by (auto simp: n t r f)
  from inst have b:
    "generate_user_schedule_image sample_extern [] ''alice'' None sample_world =
       (Inr ''/tmp/tmpab12.png'', sample_world\<lparr>temp_files := [(''/tmp/tmpab12.png'', ''PNG'')]\<rparr>)"
    by (auto simp: n t r f)
  from inst have c:
    "generate_ranking_image sample_extern [] sample_date sample_date sample_world =
       (Inr ''/tmp/tmpab12.png'', sample_world\<lparr>temp_files := [(''/tmp/tmpab12.png'', ''PNG'')]\<rparr>)"
    by (auto simp: n t r f)
  show ?thesis by (intro conjI) (rule a b c)+
qed

text \<open>
  Claim C8. Each of the three operations leaves the generator object as it was
  (template environment, template path and font path), and what it returns is
  determined by its arguments, the generator and the answers of its collaborators in
  this call: the error log and the temporary files left by earlier calls have no
  influence, so a call returns the same after any prior call as without it.
\<close>

theorem operations_stateless:
  "self (snd (run ext c w)) = self w \<and>
   env (self (snd (run ext c w))) = env (self w) \<and>
   template_path (self (snd (run ext c w))) = template_path (self w) \<and>
   font_path (self (snd (run ext c w))) = font_path (self w) \<and>
   fst (run ext c (w\<lparr>error_log := l, temp_files := fs\<rparr>)) = fst (run ext c w) \<and>
   fst (run ext c (snd (run ext' c' w))) = fst (run ext c w)"
proof -
  have a: "self (snd (run ext c w)) = self w"
    by (rule run_self)
  have b: "fst (run ext c (w\<lparr>error_log := l, temp_files := fs\<rparr>)) = fst (run ext c w)"
    by (rule run_outcome_self) simp
  have c: "fst (run ext c (snd (run ext' c' w))) = fst (run ext c w)"
    by (rule run_outcome_self) (rule run_self)
  from a b c show ?thesis by simp
qed

text \<open>
  A ranking call after a failed schedule call returns what it returns on the fresh
  world, and the generator is the one the world started with.
\<close>

theorem operations_stateless_witness:
  "self (snd (run failing_extern (ScheduleCall []) sample_world)) = sample_generator \<and>
   fst (run sample_extern (RankingCall sample_ranking sample_date sample_date)
          (snd (run failing_extern (ScheduleCall []) sample_world)))
     = fst (run sample_extern (RankingCall sample_ranking sample_date sample_date) sample_world)"
proof -
  have s: "self sample_world = sample_generator"
    by (simp add: sample_world_def)
  from operations_stateless [of failing_extern "ScheduleCall []" sample_world] s
  have a: "self (snd (run failing_extern (ScheduleCall []) sample_world)) = sample_generator"
    by simp
  from operations_stateless [of sample_extern
      "RankingCall sample_ranking sample_date sample_date" sample_world _ _
      failing_extern "ScheduleCall []"]
  have b: "fst (run sample_extern (RankingCall sample_ranking sample_date sample_date)
          (snd (run failing_extern (ScheduleCall []) sample_world)))
     = fst (run sample_extern (RankingCall sample_ranking sample_date sample_date) sample_world)"
    by simp
  show ?thesis by (rule conjI [OF a b])
qed

end
